theory Spec2Isabelle
  imports Complex_Main "HOL-Library.Sublist"
begin

section \<open>Numbers: C++ \<^verbatim>\<open>double\<close>\<close>

text \<open>
  A \<^verbatim>\<open>double\<close> is modelled by its IEEE value class: a finite number, carried as an
  exact real, one of the two infinities, or the quiet not-a-number. Rounding, overflow of
  finite results and the sign of zero are not modelled; what the source does at a zero
  divisor, at a logarithm of a non-positive number and in a comparison with NaN is.
\<close>

datatype double = Fin real | PInf | MInf | NaN

fun dneg :: "double \<Rightarrow> double" where
  "dneg (Fin x) = Fin (- x)"
| "dneg PInf = MInf"
| "dneg MInf = PInf"
| "dneg NaN = NaN"

fun dadd :: "double \<Rightarrow> double \<Rightarrow> double" where
  "dadd NaN _ = NaN"
| "dadd _ NaN = NaN"
| "dadd (Fin x) (Fin y) = Fin (x + y)"
| "dadd PInf MInf = NaN"
| "dadd MInf PInf = NaN"
| "dadd PInf _ = PInf"
| "dadd _ PInf = PInf"
| "dadd MInf _ = MInf"
| "dadd _ MInf = MInf"

definition dsub :: "double \<Rightarrow> double \<Rightarrow> double" where
  "dsub a b = dadd a (dneg b)"

text \<open>The product of an infinity with a finite factor: the sign rule, and NaN at zero.\<close>

definition inf_times :: "bool \<Rightarrow> real \<Rightarrow> double" where
  "inf_times positive x =
     (if x = 0 then NaN else if (0 < x) = positive then PInf else MInf)"

fun dmul :: "double \<Rightarrow> double \<Rightarrow> double" where
  "dmul NaN _ = NaN"
| "dmul _ NaN = NaN"
| "dmul (Fin x) (Fin y) = Fin (x * y)"
| "dmul PInf (Fin y) = inf_times True y"
| "dmul MInf (Fin y) = inf_times False y"
| "dmul (Fin x) PInf = inf_times True x"
| "dmul (Fin x) MInf = inf_times False x"
| "dmul PInf PInf = PInf"
| "dmul MInf MInf = PInf"
| "dmul PInf MInf = MInf"
| "dmul MInf PInf = MInf"

fun ddiv :: "double \<Rightarrow> double \<Rightarrow> double" where
  "ddiv NaN _ = NaN"
| "ddiv _ NaN = NaN"
| "ddiv (Fin x) (Fin y) = (if y = 0 then inf_times True x else Fin (x / y))"
| "ddiv (Fin x) PInf = Fin 0"
| "ddiv (Fin x) MInf = Fin 0"
| "ddiv PInf (Fin y) = (if y < 0 then MInf else PInf)"
| "ddiv MInf (Fin y) = (if y < 0 then PInf else MInf)"
| "ddiv _ _ = NaN"

text \<open>\<^verbatim>\<open>a < b\<close>: false as soon as one side is NaN.\<close>

fun dlt :: "double \<Rightarrow> double \<Rightarrow> bool" where
  "dlt NaN _ = False"
| "dlt _ NaN = False"
| "dlt (Fin x) (Fin y) = (x < y)"
| "dlt MInf MInf = False"
| "dlt MInf _ = True"
| "dlt PInf _ = False"
| "dlt (Fin x) PInf = True"
| "dlt (Fin x) MInf = False"

text \<open>\<^verbatim>\<open>a <= b\<close>.\<close>

definition dle :: "double \<Rightarrow> double \<Rightarrow> bool" where
  "dle a b = (dlt a b \<or> (a = b \<and> a \<noteq> NaN))"

text \<open>\<^verbatim>\<open>std::log\<close> and \<^verbatim>\<open>exp\<close>.\<close>

fun dlog :: "double \<Rightarrow> double" where
  "dlog (Fin x) = (if 0 < x then Fin (ln x) else if x = 0 then MInf else NaN)"
| "dlog PInf = PInf"
| "dlog MInf = NaN"
| "dlog NaN = NaN"

fun dexp :: "double \<Rightarrow> double" where
  "dexp (Fin x) = Fin (exp x)"
| "dexp PInf = PInf"
| "dexp MInf = Fin 0"
| "dexp NaN = NaN"

section \<open>Fatal errors\<close>

text \<open>
  \<^verbatim>\<open>plumed_merror\<close> and a failed \<^verbatim>\<open>plumed_massert\<close> end the run; each is a value of
  this type. \<open>NullPointer\<close> stands for the dereference of a grid pointer that is still
  NULL at a place where the source does not assert it, and \<open>OutOfRange\<close> for a read
  of a vector past its end.
\<close>

datatype error =
    NegativeBiasCutoff
  | BiasCutoffNotSupported
  | WellTemperedWithBiasCutoff
  | NegativeWellTemperedFactor
  | ShiftToZeroWithBiasCutoff
  | NormalizeWithShiftToZero
  | NormalizeWithBiasCutoff
  | KeywordRequired string
  | CannotUnderstandWords "string list"
  | BiasFactorNotLargerThanOne
  | NoDistributionsGiven
  | OnlyOneDistributionGiven
  | WeightsNumberMismatch
  | VesBiasNotLinked
  | VesBiasCutoffNotActive
  | BiasWithoutCutoffGridNotLinked
  | FesGridNotLinked
  | GridsNotSetup
  | ReweightGridsNotSetup
  | NegativeNormalization
  | NegativeFunctionValue
  | CannotBeNormalized
  | GetValueNotImplemented
  | NullPointer
  | OutOfRange

definition ebind :: "error + 'a \<Rightarrow> ('a \<Rightarrow> error + 'b) \<Rightarrow> error + 'b" where
  "ebind r f = (case r of Inl e \<Rightarrow> Inl e | Inr x \<Rightarrow> f x)"

section \<open>Collaborators of the distribution\<close>

subsection \<open>Grid\<close>

text \<open>
  Modelled from the spec: the class \<^verbatim>\<open>Grid\<close> (tools/Grid.h) and
  \<^verbatim>\<open>GridIntegrationWeights::getIntegrationWeights\<close> are not part of the sources at hand.
  A grid holds one value per point, the derivatives it stores per point (none for the
  grids the distribution allocates), the coordinates of each point, and the quadrature
  weights of its geometry, one per point. Its operations are the ones the spec lists:
  point-count, point coordinates by index, get/set value by index,
  scale-all-values-and-derivatives, set-minimum-to-zero, and the minimum value.
\<close>

record Grid =
  grid_values :: "double list"
  grid_ders :: "double list list"
  grid_points :: "double list list"
  grid_weights :: "double list"

definition getSize :: "Grid \<Rightarrow> nat" where
  "getSize g = length (grid_values g)"

definition getValue :: "Grid \<Rightarrow> nat \<Rightarrow> double" where
  "getValue g l = grid_values g ! l"

definition setValue :: "Grid \<Rightarrow> nat \<Rightarrow> double \<Rightarrow> Grid" where
  "setValue g l v = g\<lparr>grid_values := (grid_values g)[l := v]\<rparr>"

definition getPoint :: "Grid \<Rightarrow> nat \<Rightarrow> double list" where
  "getPoint g l = grid_points g ! l"

definition getIntegrationWeights :: "Grid \<Rightarrow> double list" where
  "getIntegrationWeights g = grid_weights g"

definition scaleAllValuesAndDerivatives :: "Grid \<Rightarrow> double \<Rightarrow> Grid" where
  "scaleAllValuesAndDerivatives g scalef =
     g\<lparr>grid_values := map (\<lambda>v. dmul v scalef) (grid_values g),
       grid_ders := map (map (\<lambda>d. dmul d scalef)) (grid_ders g)\<rparr>"

text \<open>The running minimum of a scan with \<^verbatim>\<open><\<close>: a NaN never replaces it.\<close>

definition scan_min :: "double list \<Rightarrow> double \<Rightarrow> double" where
  "scan_min vs start = fold (\<lambda>v m. if dlt v m then v else m) vs start"

definition shift_min :: "double list \<Rightarrow> double list" where
  "shift_min vs =
     (case vs of [] \<Rightarrow> []
      | v # rest \<Rightarrow> (let m = scan_min rest v in map (\<lambda>x. dsub x m) vs))"

definition setMinToZero :: "Grid \<Rightarrow> Grid" where
  "setMinToZero g = g\<lparr>grid_values := shift_min (grid_values g)\<rparr>"

text \<open>The scan of \<^verbatim>\<open>getMinValue\<close> starts above every number.\<close>

definition getMinValue :: "Grid \<Rightarrow> double" where
  "getMinValue g = scan_min (grid_values g) PInf"

subsection \<open>The owning bias\<close>

text \<open>
  Modelled from the spec: \<^verbatim>\<open>VesBias\<close> is not part of the sources at hand. The distribution
  consumes from it the inverse temperature, whether the bias cutoff is active there, and
  the switching function of the cutoff, which maps a bias value to the switching factor
  and the derivative factor.
\<close>

record VesBias =
  ves_getBeta :: double
  ves_biasCutoffActive :: bool
  getBiasCutoffSwitchingFunction :: "double \<Rightarrow> double \<times> double"

subsection \<open>Modifiers\<close>

text \<open>
  Modelled from the spec: \<^verbatim>\<open>TargetDistModifer.h\<close> is not part of the sources at hand. The
  one modifier the constructor creates broadens the distribution to \<open>[p(s)]^(1/g)\<close> for the
  well-tempered factor \<open>g\<close> (the text of the keyword \<^verbatim>\<open>WELLTEMPERED_FACTOR\<close>).
\<close>

datatype TargetDistModifer = WellTemperedModifer double

text \<open>\<^verbatim>\<open>std::pow\<close> at a finite exponent, for a base that is not negative.\<close>

fun dpow :: "double \<Rightarrow> double \<Rightarrow> double" where
  "dpow (Fin x) (Fin y) =
     (if 0 < x then Fin (x powr y)
      else if x = 0 then (if 0 < y then Fin 0 else if y = 0 then Fin 1 else PInf)
      else if y = 0 then Fin 1 else NaN)"
| "dpow PInf (Fin y) = (if 0 < y then PInf else if y = 0 then Fin 1 else Fin 0)"
| "dpow _ _ = NaN"

fun getModifedTargetDistValue :: "TargetDistModifer \<Rightarrow> double \<Rightarrow> double list \<Rightarrow> double" where
  "getModifedTargetDistValue (WellTemperedModifer biasfactor) targetdist_value cv_values =
     dpow targetdist_value (ddiv (Fin 1) biasfactor)"

subsection \<open>Keywords and parsed input\<close>

text \<open>
  Modelled from the spec: the keyword plumbing (\<^verbatim>\<open>Keywords\<close>, \<^verbatim>\<open>Tools::parse\<close>,
  \<^verbatim>\<open>Tools::parseFlag\<close>, the register of distributions) is not part of the sources at hand.
  The constructor is given what the plumbing returns: for each keyword whether the variant
  has registered it for use, and the value found in the input, if any.
\<close>

record Keywords =
  exists_BIAS_CUTOFF :: bool
  exists_WELLTEMPERED_FACTOR :: bool
  exists_SHIFT_TO_ZERO :: bool
  exists_NORMALIZE :: bool

record TargetDistributionOptions =
  words_0 :: string
  getKeywords :: Keywords
  parse_BIAS_CUTOFF :: "double option"
  parse_WELLTEMPERED_FACTOR :: "double option"
  parseFlag_SHIFT_TO_ZERO :: bool
  parseFlag_NORMALIZE :: bool

section \<open>The distribution\<close>

text \<open>
  The members of \<^verbatim>\<open>class TargetDistribution\<close>, under their names without the trailing
  underscore. The reference \<^verbatim>\<open>keywords\<close> is \<open>registered_keywords\<close>. A pointer is an
  option, NULL being \<open>None\<close>; the linked grids of the bias are held as the snapshot
  that is valid during one update.
\<close>

datatype TargetDistType = static_targetdist | dynamic_targetdist

record TargetDistribution =
  name :: string
  type :: TargetDistType
  force_normalization :: bool
  check_normalization :: bool
  check_nonnegative :: bool
  shift_targetdist_to_zero :: bool
  dimension :: nat
  targetdist_grid_pntr :: "Grid option"
  log_targetdist_grid_pntr :: "Grid option"
  reweight_grid_active :: bool
  reweight_grid_pntr :: "Grid option"
  log_reweight_grid_pntr :: "Grid option"
  targetdist_modifer_pntrs :: "TargetDistModifer list"
  vesbias_pntr :: "VesBias option"
  needs_bias_grid :: bool
  needs_bias_withoutcutoff_grid :: bool
  needs_fes_grid :: bool
  bias_grid_pntr :: "Grid option"
  bias_withoutcutoff_grid_pntr :: "Grid option"
  fes_grid_pntr :: "Grid option"
  bias_rwgrid_pntr :: "Grid option"
  bias_withoutcutoff_rwgrid_pntr :: "Grid option"
  fes_rwgrid_pntr :: "Grid option"
  static_grid_calculated :: bool
  bias_cutoff_active :: bool
  bias_cutoff_value :: double
  registered_keywords :: Keywords

subsection \<open>Construction\<close>

text \<open>The member initialiser list of the constructor.\<close>

definition initial_members :: "'a TargetDistributionOptions_scheme \<Rightarrow> TargetDistribution" where
  "initial_members to =
     \<lparr>name = words_0 to,
      type = static_targetdist,
      force_normalization = False,
      check_normalization = True,
      check_nonnegative = True,
      shift_targetdist_to_zero = False,
      dimension = 0,
      targetdist_grid_pntr = None,
      log_targetdist_grid_pntr = None,
      reweight_grid_active = False,
      reweight_grid_pntr = None,
      log_reweight_grid_pntr = None,
      targetdist_modifer_pntrs = [],
      vesbias_pntr = None,
      needs_bias_grid = False,
      needs_bias_withoutcutoff_grid = False,
      needs_fes_grid = False,
      bias_grid_pntr = None,
      bias_withoutcutoff_grid_pntr = None,
      fes_grid_pntr = None,
      bias_rwgrid_pntr = None,
      bias_withoutcutoff_rwgrid_pntr = None,
      fes_rwgrid_pntr = None,
      static_grid_calculated = False,
      bias_cutoff_active = False,
      bias_cutoff_value = Fin 0,
      registered_keywords = getKeywords to\<rparr>"

definition setDynamic :: "TargetDistribution \<Rightarrow> TargetDistribution" where
  "setDynamic td = td\<lparr>type := dynamic_targetdist\<rparr>"

definition setFesGridNeeded :: "TargetDistribution \<Rightarrow> TargetDistribution" where
  "setFesGridNeeded td = td\<lparr>needs_fes_grid := True\<rparr>"

definition setBiasGridNeeded :: "TargetDistribution \<Rightarrow> TargetDistribution" where
  "setBiasGridNeeded td = td\<lparr>needs_bias_grid := True\<rparr>"

definition setBiasWithoutCutoffGridNeeded :: "TargetDistribution \<Rightarrow> TargetDistribution" where
  "setBiasWithoutCutoffGridNeeded td = td\<lparr>needs_bias_withoutcutoff_grid := True\<rparr>"

definition setForcedNormalization :: "TargetDistribution \<Rightarrow> TargetDistribution" where
  "setForcedNormalization td = td\<lparr>force_normalization := True, check_normalization := False\<rparr>"

definition setupBiasCutoff :: "TargetDistribution \<Rightarrow> error + TargetDistribution" where
  "setupBiasCutoff td =
     (if \<not> exists_BIAS_CUTOFF (registered_keywords td) then Inl BiasCutoffNotSupported
      else Inr ((setDynamic (setBiasWithoutCutoffGridNeeded (td\<lparr>bias_cutoff_active := True\<rparr>)))
                 \<lparr>check_normalization := False, force_normalization := False\<rparr>))"

text \<open>
  The body of the constructor, block by block in the order of the source. A keyword that
  is absent from the input leaves the variable it is parsed into at its initial value.
\<close>

definition TargetDistribution_ctor ::
  "'a TargetDistributionOptions_scheme \<Rightarrow> error + TargetDistribution" where
  "TargetDistribution_ctor to =
     ebind (Inr (initial_members to)) (\<lambda>td.
     ebind (let td = (case parse_BIAS_CUTOFF to of None \<Rightarrow> td
                      | Some v \<Rightarrow> td\<lparr>bias_cutoff_value := v\<rparr>)
            in if dlt (bias_cutoff_value td) (Fin 0) then Inl NegativeBiasCutoff
               else if dlt (Fin 0) (bias_cutoff_value td) then setupBiasCutoff td
               else Inr td) (\<lambda>td.
     ebind (if exists_WELLTEMPERED_FACTOR (registered_keywords td) then
              (let welltempered_factor =
                     (case parse_WELLTEMPERED_FACTOR to of None \<Rightarrow> Fin 0 | Some v \<Rightarrow> v)
               in if dlt (Fin 0) welltempered_factor then
                    (if bias_cutoff_active td then Inl WellTemperedWithBiasCutoff
                     else Inr (td\<lparr>targetdist_modifer_pntrs :=
                                 targetdist_modifer_pntrs td @ [WellTemperedModifer welltempered_factor]\<rparr>))
                  else if dlt welltempered_factor (Fin 0) then Inl NegativeWellTemperedFactor
                  else Inr td)
            else Inr td) (\<lambda>td.
     ebind (if exists_SHIFT_TO_ZERO (registered_keywords td) then
              (let td = td\<lparr>shift_targetdist_to_zero := parseFlag_SHIFT_TO_ZERO to\<rparr>
               in if shift_targetdist_to_zero td then
                    (if bias_cutoff_active td then Inl ShiftToZeroWithBiasCutoff
                     else Inr (td\<lparr>check_nonnegative := False\<rparr>))
                  else Inr td)
            else Inr td) (\<lambda>td.
     (if exists_NORMALIZE (registered_keywords td) then
        (let force_normalization_local = parseFlag_NORMALIZE to
         in if force_normalization_local then
              (if shift_targetdist_to_zero td then Inl NormalizeWithShiftToZero
               else if bias_cutoff_active td then Inl NormalizeWithBiasCutoff
               else Inr (setForcedNormalization td))
            else Inr td)
      else Inr td)))))"

subsection \<open>Grid passes of the base class\<close>

definition getBeta :: "TargetDistribution \<Rightarrow> error + double" where
  "getBeta td = (case vesbias_pntr td of None \<Rightarrow> Inl VesBiasNotLinked
                 | Some ves \<Rightarrow> Inr (ves_getBeta ves))"

text \<open>
  One round of the point loop of \<^verbatim>\<open>calculateStaticDistributionGrid\<close>; the argument
  \<open>td_getValue\<close> is the virtual \<^verbatim>\<open>getValue\<close> of the variant, which may end the run.
\<close>

definition static_point ::
  "(double list \<Rightarrow> error + double) \<Rightarrow> nat \<Rightarrow> error + Grid \<times> Grid \<Rightarrow> error + Grid \<times> Grid" where
  "static_point td_getValue l acc =
     ebind acc (\<lambda>(grid, log_grid).
       (let argument = getPoint grid l
        in ebind (td_getValue argument) (\<lambda>value.
             Inr (setValue grid l value, setValue log_grid l (dneg (dlog value))))))"

definition static_pass ::
  "(double list \<Rightarrow> error + double) \<Rightarrow> Grid \<Rightarrow> Grid \<Rightarrow> error + Grid \<times> Grid" where
  "static_pass td_getValue grid log_grid =
     ebind (fold (static_point td_getValue) [0..<getSize grid] (Inr (grid, log_grid)))
       (\<lambda>(grid, log_grid). Inr (grid, setMinToZero log_grid))"

definition calculateStaticDistributionGrid ::
  "(double list \<Rightarrow> error + double) \<Rightarrow> TargetDistribution \<Rightarrow> error + TargetDistribution" where
  "calculateStaticDistributionGrid td_getValue td =
     (if static_grid_calculated td \<and> \<not> bias_cutoff_active td then Inr td
      else case targetdist_grid_pntr td of None \<Rightarrow> Inl GridsNotSetup
      | Some grid \<Rightarrow>
      (case log_targetdist_grid_pntr td of None \<Rightarrow> Inl GridsNotSetup
      | Some log_grid \<Rightarrow>
        ebind (static_pass td_getValue grid log_grid) (\<lambda>(grid, log_grid).
        ebind (let td = td\<lparr>targetdist_grid_pntr := Some grid,
                             log_targetdist_grid_pntr := Some log_grid\<rparr>
               in if reweight_grid_active td then
                    (case reweight_grid_pntr td of None \<Rightarrow> Inl ReweightGridsNotSetup
                     | Some rw_grid \<Rightarrow>
                     (case log_reweight_grid_pntr td of None \<Rightarrow> Inl ReweightGridsNotSetup
                      | Some log_rw_grid \<Rightarrow>
                        ebind (static_pass td_getValue rw_grid log_rw_grid) (\<lambda>(rw_grid, log_rw_grid).
                          Inr (td\<lparr>reweight_grid_pntr := Some rw_grid,
                                   log_reweight_grid_pntr := Some log_rw_grid\<rparr>))))
                  else Inr td) (\<lambda>td.
        Inr (td\<lparr>static_grid_calculated := True\<rparr>)))))"

definition integrateGrid :: "Grid \<Rightarrow> double" where
  "integrateGrid grid =
     (let integration_weights = getIntegrationWeights grid
      in fold (\<lambda>l sum. dadd sum (dmul (integration_weights ! l) (getValue grid l)))
           [0..<getSize grid] (Fin 0))"

text \<open>\<^verbatim>\<open>normalizeGrid\<close> returns the integral next to the grid it has scaled.\<close>

definition normalizeGrid :: "Grid \<Rightarrow> Grid \<times> double" where
  "normalizeGrid grid =
     (let normalization = integrateGrid grid
      in (scaleAllValuesAndDerivatives grid (ddiv (Fin 1) normalization), normalization))"

definition normalizeTargetDistGrid :: "TargetDistribution \<Rightarrow> error + TargetDistribution" where
  "normalizeTargetDistGrid td =
     (case targetdist_grid_pntr td of None \<Rightarrow> Inl NullPointer
      | Some grid \<Rightarrow>
        (let (grid, normalization) = normalizeGrid grid;
             td = td\<lparr>targetdist_grid_pntr := Some grid\<rparr>
         in if dlt normalization (Fin 0) then Inl NegativeNormalization
            else if reweight_grid_active td then
              (case reweight_grid_pntr td of None \<Rightarrow> Inl NullPointer
               | Some rw_grid \<Rightarrow>
                 (let (rw_grid, normalize_reweight) = normalizeGrid rw_grid;
                      td = td\<lparr>reweight_grid_pntr := Some rw_grid\<rparr>
                  in if dlt normalize_reweight (Fin 0) then Inl NegativeNormalization
                     else Inr td))
            else Inr td))"

text \<open>
  One round of the point loop of \<^verbatim>\<open>updateBiasCutoffForTargetDistGrid\<close>, on the
  accumulator \<^verbatim>\<open>norm\<close> and the grid.
\<close>

definition cutoff_point ::
  "VesBias \<Rightarrow> double list \<Rightarrow> Grid \<Rightarrow> nat \<Rightarrow> double \<times> Grid \<Rightarrow> double \<times> Grid" where
  "cutoff_point ves integration_weights bias_grid l acc =
     (case acc of (norm_acc, grid) \<Rightarrow>
       (let value = getValue grid l;
            bias = getValue bias_grid l;
            (swf, deriv_factor_swf) = getBiasCutoffSwitchingFunction ves bias;
            value = dmul value swf;
            norm_acc = dadd norm_acc (dmul (integration_weights ! l) value);
            value = dmul value deriv_factor_swf
        in (norm_acc, setValue grid l value)))"

definition cutoff_pass :: "VesBias \<Rightarrow> Grid \<Rightarrow> Grid \<Rightarrow> Grid" where
  "cutoff_pass ves bias_grid grid =
     (let integration_weights = getIntegrationWeights grid;
          (norm_acc, grid) = fold (cutoff_point ves integration_weights bias_grid)
                           [0..<getSize grid] (Fin 0, grid)
      in scaleAllValuesAndDerivatives grid (ddiv (Fin 1) norm_acc))"

definition updateBiasCutoffForTargetDistGrid :: "TargetDistribution \<Rightarrow> error + TargetDistribution" where
  "updateBiasCutoffForTargetDistGrid td =
     (case vesbias_pntr td of None \<Rightarrow> Inl VesBiasNotLinked
      | Some ves \<Rightarrow>
        if \<not> ves_biasCutoffActive ves then Inl VesBiasCutoffNotActive
        else (case bias_withoutcutoff_grid_pntr td of None \<Rightarrow> Inl BiasWithoutCutoffGridNotLinked
        | Some bias_grid \<Rightarrow>
        (case targetdist_grid_pntr td of None \<Rightarrow> Inl NullPointer
        | Some grid \<Rightarrow>
          (let td = td\<lparr>targetdist_grid_pntr := Some (cutoff_pass ves bias_grid grid)\<rparr>
           in if reweight_grid_active td then
                (case reweight_grid_pntr td of None \<Rightarrow> Inl NullPointer
                 | Some rw_grid \<Rightarrow>
                 (case bias_withoutcutoff_rwgrid_pntr td of None \<Rightarrow> Inl NullPointer
                  | Some bias_rwgrid \<Rightarrow>
                    Inr (td\<lparr>reweight_grid_pntr := Some (cutoff_pass ves bias_rwgrid rw_grid)\<rparr>)))
              else Inr td))))"

text \<open>One round of the point loop of \<^verbatim>\<open>applyTargetDistModiferToGrid\<close>.\<close>

definition modifer_point ::
  "TargetDistModifer \<Rightarrow> double list \<Rightarrow> nat \<Rightarrow> double \<times> Grid \<times> Grid \<Rightarrow> double \<times> Grid \<times> Grid" where
  "modifer_point modifer_pntr integration_weights l acc =
     (case acc of (norm_acc, grid, log_grid) \<Rightarrow>
       (let value = getValue grid l;
            cv_values = getPoint grid l;
            value = getModifedTargetDistValue modifer_pntr value cv_values;
            norm_acc = dadd norm_acc (dmul (integration_weights ! l) value)
        in (norm_acc, setValue grid l value, setValue log_grid l (dneg (dlog value)))))"

definition modifer_pass :: "TargetDistModifer \<Rightarrow> Grid \<Rightarrow> Grid \<Rightarrow> Grid \<times> Grid" where
  "modifer_pass modifer_pntr grid log_grid =
     (let integration_weights = getIntegrationWeights grid;
          (norm_acc, grid, log_grid) = fold (modifer_point modifer_pntr integration_weights)
                                         [0..<getSize grid] (Fin 0, grid, log_grid)
      in (scaleAllValuesAndDerivatives grid (ddiv (Fin 1) norm_acc), setMinToZero log_grid))"

definition applyTargetDistModiferToGrid ::
  "TargetDistModifer \<Rightarrow> TargetDistribution \<Rightarrow> error + TargetDistribution" where
  "applyTargetDistModiferToGrid modifer_pntr td =
     (case targetdist_grid_pntr td of None \<Rightarrow> Inl NullPointer
      | Some grid \<Rightarrow>
      (case log_targetdist_grid_pntr td of None \<Rightarrow> Inl NullPointer
      | Some log_grid \<Rightarrow>
        (let (grid, log_grid) = modifer_pass modifer_pntr grid log_grid;
             td = td\<lparr>targetdist_grid_pntr := Some grid, log_targetdist_grid_pntr := Some log_grid\<rparr>
         in if reweight_grid_active td then
              (case reweight_grid_pntr td of None \<Rightarrow> Inl NullPointer
               | Some rw_grid \<Rightarrow>
               (case log_reweight_grid_pntr td of None \<Rightarrow> Inl NullPointer
                | Some log_rw_grid \<Rightarrow>
                  (let (rw_grid, log_rw_grid) = modifer_pass modifer_pntr rw_grid log_rw_grid
                   in Inr (td\<lparr>reweight_grid_pntr := Some rw_grid,
                                log_reweight_grid_pntr := Some log_rw_grid\<rparr>))))
            else Inr td)))"

text \<open>The pass of \<^verbatim>\<open>updateLogTargetDistGrid\<close> over one pair of grids.\<close>

definition log_pass :: "Grid \<Rightarrow> Grid \<Rightarrow> Grid" where
  "log_pass grid log_grid =
     setMinToZero (fold (\<lambda>l log_grid. setValue log_grid l (dneg (dlog (getValue grid l))))
                     [0..<getSize grid] log_grid)"

definition updateLogTargetDistGrid :: "TargetDistribution \<Rightarrow> error + TargetDistribution" where
  "updateLogTargetDistGrid td =
     (case targetdist_grid_pntr td of None \<Rightarrow> Inl NullPointer
      | Some grid \<Rightarrow>
      (case log_targetdist_grid_pntr td of None \<Rightarrow> Inl NullPointer
      | Some log_grid \<Rightarrow>
        (let td = td\<lparr>log_targetdist_grid_pntr := Some (log_pass grid log_grid)\<rparr>
         in if reweight_grid_active td then
              (case reweight_grid_pntr td of None \<Rightarrow> Inl NullPointer
               | Some rw_grid \<Rightarrow>
               (case log_reweight_grid_pntr td of None \<Rightarrow> Inl NullPointer
                | Some log_rw_grid \<Rightarrow>
                  Inr (td\<lparr>log_reweight_grid_pntr := Some (log_pass rw_grid log_rw_grid)\<rparr>)))
            else Inr td)))"

definition setMinimumOfTargetDistGridToZero :: "TargetDistribution \<Rightarrow> error + TargetDistribution" where
  "setMinimumOfTargetDistGridToZero td =
     (case targetdist_grid_pntr td of None \<Rightarrow> Inl NullPointer
      | Some grid \<Rightarrow>
        ebind (let td = td\<lparr>targetdist_grid_pntr := Some (setMinToZero grid)\<rparr>
               in if reweight_grid_active td then
                    (case reweight_grid_pntr td of None \<Rightarrow> Inl NullPointer
                     | Some rw_grid \<Rightarrow> Inr (td\<lparr>reweight_grid_pntr := Some (setMinToZero rw_grid)\<rparr>))
                  else Inr td) (\<lambda>td.
        ebind (normalizeTargetDistGrid td) updateLogTargetDistGrid))"

subsection \<open>The update\<close>

text \<open>
  A run of \<^verbatim>\<open>update()\<close> is recorded as the list of what it did, in program order: each
  step it entered, and each warning it wrote to \<^verbatim>\<open>std::cerr\<close>. A fatal error ends the
  run, and the record, at the step that raised it.
\<close>

datatype event =
    Step_updateGrid
  | Step_applyModifer nat
  | Step_biasCutoff
  | Step_shiftToZero
  | Step_normalize
  | Step_checkNormalization
  | Step_checkNonNegative
  | Warning_notNormalized double
  | Warning_negativeValues double

type_synonym 'a traced = "event list \<times> (error + 'a)"

definition tbind :: "'a traced \<Rightarrow> ('a \<Rightarrow> 'b traced) \<Rightarrow> 'b traced" where
  "tbind m f =
     (case m of
        (tr, Inl e) \<Rightarrow> (tr, Inl e)
      | (tr, Inr x) \<Rightarrow> (case f x of (tr', r) \<Rightarrow> (tr @ tr', r)))"

definition enter :: "event \<Rightarrow> error + 'a \<Rightarrow> 'a traced" where
  "enter ev r = ([ev], r)"

definition skip :: "'a \<Rightarrow> 'a traced" where
  "skip x = ([], Inr x)"

text \<open>The two checks that close \<^verbatim>\<open>update()\<close>, each with its threshold.\<close>

definition checkNormalization :: "TargetDistribution \<Rightarrow> TargetDistribution traced" where
  "checkNormalization td =
     (case targetdist_grid_pntr td of None \<Rightarrow> enter Step_checkNormalization (Inl NullPointer)
      | Some grid \<Rightarrow>
        (let normalization = integrateGrid grid;
             normalization_thrshold = Fin 0.1
         in (Step_checkNormalization #
               (if dlt normalization (dsub (Fin 1) normalization_thrshold)
                   \<or> dlt (dadd (Fin 1) normalization_thrshold) normalization
                then [Warning_notNormalized normalization] else []),
             Inr td)))"

definition checkNonNegative :: "TargetDistribution \<Rightarrow> TargetDistribution traced" where
  "checkNonNegative td =
     (case targetdist_grid_pntr td of None \<Rightarrow> enter Step_checkNonNegative (Inl NullPointer)
      | Some grid \<Rightarrow>
        (let nonnegative_thrshold = Fin (- 0.02);
             grid_min_value = getMinValue grid
         in (Step_checkNonNegative #
               (if dlt grid_min_value nonnegative_thrshold
                then [Warning_negativeValues grid_min_value] else []),
             Inr td)))"

text \<open>
  \<^verbatim>\<open>update()\<close>; the argument \<open>updateGrid\<close> is the virtual \<^verbatim>\<open>updateGrid()\<close> of the
  variant. Every condition reads the members as they are when it is reached.
\<close>

definition update ::
  "(TargetDistribution \<Rightarrow> error + TargetDistribution) \<Rightarrow> TargetDistribution
     \<Rightarrow> TargetDistribution traced" where
  "update updateGrid td =
     tbind (enter Step_updateGrid (updateGrid td)) (\<lambda>td.
     tbind (fold (\<lambda>i run. tbind run (\<lambda>td.
                     enter (Step_applyModifer i)
                       (applyTargetDistModiferToGrid (targetdist_modifer_pntrs td ! i) td)))
              [0..<length (targetdist_modifer_pntrs td)] (skip td)) (\<lambda>td.
     tbind (if bias_cutoff_active td
            then enter Step_biasCutoff (updateBiasCutoffForTargetDistGrid td)
            else skip td) (\<lambda>td.
     tbind (if shift_targetdist_to_zero td \<and> \<not> bias_cutoff_active td
            then enter Step_shiftToZero (setMinimumOfTargetDistGridToZero td)
            else skip td) (\<lambda>td.
     tbind (if force_normalization td \<and> \<not> bias_cutoff_active td
            then enter Step_normalize (normalizeTargetDistGrid td)
            else skip td) (\<lambda>td.
     tbind (if check_normalization td \<and> \<not> bias_cutoff_active td
            then checkNormalization td
            else skip td) (\<lambda>td.
     (if check_nonnegative td then checkNonNegative td else skip td)))))))"

text \<open>
  \<^verbatim>\<open>checkRead\<close> fails when words of the input are left that no \<^verbatim>\<open>parse\<close> has taken.
\<close>

definition checkRead :: "string list \<Rightarrow> error + unit" where
  "checkRead input_left = (if input_left \<noteq> [] then Inl (CannotUnderstandWords input_left) else Inr ())"

section \<open>The well-tempered distribution\<close>

record TD_WellTempered_Options = TargetDistributionOptions +
  parse_BIASFACTOR :: "double option"
  wt_input_left :: "string list"

record TD_WellTempered =
  wt_base :: TargetDistribution
  bias_factor :: double

definition TD_WellTempered_ctor :: "TD_WellTempered_Options \<Rightarrow> error + TD_WellTempered" where
  "TD_WellTempered_ctor to =
     ebind (TargetDistribution_ctor to) (\<lambda>td.
       (case parse_BIASFACTOR to of None \<Rightarrow> Inl (KeywordRequired ''BIASFACTOR'')
        | Some bias_factor_in \<Rightarrow>
          if dle bias_factor_in (Fin 1) then Inl BiasFactorNotLargerThanOne
          else ebind (checkRead (wt_input_left to)) (\<lambda>_.
                 Inr \<lparr>wt_base = setFesGridNeeded (setDynamic td), bias_factor = bias_factor_in\<rparr>)))"

text \<open>One round of the point loop of \<^verbatim>\<open>TD_WellTempered::updateGrid\<close>.\<close>

definition welltempered_point ::
  "double \<Rightarrow> double list \<Rightarrow> Grid \<Rightarrow> nat \<Rightarrow> double \<times> Grid \<times> Grid \<Rightarrow> double \<times> Grid \<times> Grid" where
  "welltempered_point beta_prime integration_weights fes_grid l acc =
     (case acc of (norm_acc, grid, log_grid) \<Rightarrow>
       (let value = dmul beta_prime (getValue fes_grid l);
            log_grid = setValue log_grid l value;
            value = dexp (dneg value);
            norm_acc = dadd norm_acc (dmul (integration_weights ! l) value)
        in (norm_acc, setValue grid l value, log_grid)))"

definition welltempered_pass :: "double \<Rightarrow> Grid \<Rightarrow> Grid \<Rightarrow> Grid \<Rightarrow> Grid \<times> Grid" where
  "welltempered_pass beta_prime fes_grid grid log_grid =
     (let integration_weights = getIntegrationWeights grid;
          (norm_acc, grid, log_grid) = fold (welltempered_point beta_prime integration_weights fes_grid)
                                         [0..<getSize grid] (Fin 0, grid, log_grid)
      in (scaleAllValuesAndDerivatives grid (ddiv (Fin 1) norm_acc), setMinToZero log_grid))"

definition TD_WellTempered_updateGrid :: "double \<Rightarrow> TargetDistribution \<Rightarrow> error + TargetDistribution" where
  "TD_WellTempered_updateGrid bias_factor_m td =
     ebind (getBeta td) (\<lambda>beta.
       (let beta_prime = ddiv beta bias_factor_m
        in case fes_grid_pntr td of None \<Rightarrow> Inl FesGridNotLinked
        | Some fes_grid \<Rightarrow>
        (case targetdist_grid_pntr td of None \<Rightarrow> Inl NullPointer
        | Some grid \<Rightarrow>
        (case log_targetdist_grid_pntr td of None \<Rightarrow> Inl NullPointer
        | Some log_grid \<Rightarrow>
          (let (grid, log_grid) = welltempered_pass beta_prime fes_grid grid log_grid;
               td = td\<lparr>targetdist_grid_pntr := Some grid, log_targetdist_grid_pntr := Some log_grid\<rparr>
           in if reweight_grid_active td then
                (case reweight_grid_pntr td of None \<Rightarrow> Inl NullPointer
                 | Some rw_grid \<Rightarrow>
                 (case fes_rwgrid_pntr td of None \<Rightarrow> Inl NullPointer
                 | Some fes_rwgrid \<Rightarrow>
                 (case log_reweight_grid_pntr td of None \<Rightarrow> Inl NullPointer
                  | Some log_rw_grid \<Rightarrow>
                    (let (rw_grid, log_rw_grid) = welltempered_pass beta_prime fes_rwgrid rw_grid log_rw_grid
                     in Inr (td\<lparr>reweight_grid_pntr := Some rw_grid,
                                  log_reweight_grid_pntr := Some log_rw_grid\<rparr>)))))
              else Inr td)))))"

section \<open>The linear combination\<close>





text \<open>One round of the loop over the numbered keywords.\<close>

definition add_distribution ::
  "error + TargetDistribution \<Rightarrow> error + TargetDistribution \<times> TargetDistribution list
     \<Rightarrow> error + TargetDistribution \<times> TargetDistribution list" where
  "add_distribution created acc =
     ebind acc (\<lambda>(td, distribution_pntrs_acc).
     ebind created (\<lambda>dist_pntr_tmp.
       (let td = (if type dist_pntr_tmp = dynamic_targetdist then setDynamic td else td);
            td = (if needs_fes_grid dist_pntr_tmp then setFesGridNeeded td else td);
            td = (if needs_bias_grid dist_pntr_tmp then setBiasGridNeeded td else td)
        in Inr (td, distribution_pntrs_acc @ [dist_pntr_tmp]))))"


section \<open>The distribution given by a formula\<close>

text \<open>
  The members of \<^verbatim>\<open>TD_Matheval\<close> that \<^verbatim>\<open>updateGrid\<close> reads. The evaluator of the formula
  is taken as a function of the values of its variables, in the order in which
  \<^verbatim>\<open>updateGrid\<close> lists them: the arguments \<^verbatim>\<open>s1\<close>, \<^verbatim>\<open>s2\<close>, ..., then the free energy,
  \<^verbatim>\<open>kBT\<close> and \<^verbatim>\<open>beta\<close> where the formula uses them.
\<close>

record TD_Matheval =
  evaluator_evaluate :: "double list \<Rightarrow> double"
  cv_var_idx :: "nat list"
  use_fes :: bool
  use_kbt :: bool
  use_beta :: bool

text \<open>
  The vector \<^verbatim>\<open>var_values\<close> before the point loop; \<open>fes_pntr\<close> is the free energy grid
  that the pass reads, of the primary or of the reweighting grid.
\<close>

definition matheval_var_values ::
  "TD_Matheval \<Rightarrow> TargetDistribution \<Rightarrow> Grid option \<Rightarrow> error + double list" where
  "matheval_var_values m td fes_pntr =
     (let var_values = replicate (length (cv_var_idx m)) (Fin 0)
      in ebind (if use_fes m
                then (case fes_pntr of None \<Rightarrow> Inl FesGridNotLinked
                      | Some _ \<Rightarrow> Inr (var_values @ [Fin 0]))
                else Inr var_values) (\<lambda>var_values.
         ebind (if use_kbt m
                then ebind (getBeta td) (\<lambda>beta. Inr (var_values @ [ddiv (Fin 1) beta]))
                else Inr var_values) (\<lambda>var_values.
         if use_beta m
         then ebind (getBeta td) (\<lambda>beta. Inr (var_values @ [beta]))
         else Inr var_values)))"

text \<open>One round of the point loop of \<^verbatim>\<open>TD_Matheval::updateGrid\<close>.\<close>

definition matheval_point ::
  "TD_Matheval \<Rightarrow> bool \<Rightarrow> double list \<Rightarrow> Grid option \<Rightarrow> nat
     \<Rightarrow> error + double \<times> Grid \<times> Grid \<times> double list
     \<Rightarrow> error + double \<times> Grid \<times> Grid \<times> double list" where
  "matheval_point m shifted integration_weights fes_pntr l acc =
     ebind acc (\<lambda>(norm_acc, grid, log_grid, var_values).
       (let point = getPoint grid l
        in ebind (fold (\<lambda>k vs. ebind vs (\<lambda>vs.
                           if cv_var_idx m ! k < length point
                           then Inr (vs[k := point ! (cv_var_idx m ! k)])
                           else Inl OutOfRange))
                    [0..<length (cv_var_idx m)] (Inr var_values)) (\<lambda>var_values.
           ebind (if use_fes m
                  then (case fes_pntr of None \<Rightarrow> Inl NullPointer
                        | Some fes_grid \<Rightarrow>
                            Inr (var_values[length (cv_var_idx m) := getValue fes_grid l]))
                  else Inr var_values) (\<lambda>var_values.
           (let value = evaluator_evaluate m var_values
            in if dlt value (Fin 0) \<and> \<not> shifted then Inl NegativeFunctionValue
               else Inr (dadd norm_acc (dmul (integration_weights ! l) value),
                         setValue grid l value,
                         setValue log_grid l (dneg (dlog value)),
                         var_values))))))"

text \<open>
  The loop, and the normalization after it: the grid is scaled when the integral is
  positive, left as it is when the distribution is shifted to zero, and the run ends
  otherwise.
\<close>

definition matheval_pass ::
  "TD_Matheval \<Rightarrow> bool \<Rightarrow> Grid option \<Rightarrow> double list \<Rightarrow> Grid \<Rightarrow> Grid \<Rightarrow> error + Grid \<times> Grid" where
  "matheval_pass m shifted fes_pntr var_values grid log_grid =
     (let integration_weights = getIntegrationWeights grid
      in ebind (fold (matheval_point m shifted integration_weights fes_pntr)
                  [0..<getSize grid] (Inr (Fin 0, grid, log_grid, var_values)))
           (\<lambda>(norm_acc, grid, log_grid, _).
             ebind (if dlt (Fin 0) norm_acc
                    then Inr (scaleAllValuesAndDerivatives grid (ddiv (Fin 1) norm_acc))
                    else if \<not> shifted then Inl CannotBeNormalized
                    else Inr grid) (\<lambda>grid.
             Inr (grid, setMinToZero log_grid))))"

definition TD_Matheval_updateGrid :: "TD_Matheval \<Rightarrow> TargetDistribution \<Rightarrow> error + TargetDistribution" where
  "TD_Matheval_updateGrid m td =
     ebind (matheval_var_values m td (fes_grid_pntr td)) (\<lambda>var_values.
       (case targetdist_grid_pntr td of None \<Rightarrow> Inl NullPointer
        | Some grid \<Rightarrow>
        (case log_targetdist_grid_pntr td of None \<Rightarrow> Inl NullPointer
        | Some log_grid \<Rightarrow>
          ebind (matheval_pass m (shift_targetdist_to_zero td) (fes_grid_pntr td) var_values grid log_grid)
            (\<lambda>(grid, log_grid).
              (let td = td\<lparr>targetdist_grid_pntr := Some grid, log_targetdist_grid_pntr := Some log_grid\<rparr>
               in if reweight_grid_active td then
                    ebind (matheval_var_values m td (fes_rwgrid_pntr td)) (\<lambda>rw_var_values.
                      (case reweight_grid_pntr td of None \<Rightarrow> Inl NullPointer
                       | Some rw_grid \<Rightarrow>
                       (case log_reweight_grid_pntr td of None \<Rightarrow> Inl NullPointer
                        | Some log_rw_grid \<Rightarrow>
                          ebind (matheval_pass m (shift_targetdist_to_zero td) (fes_rwgrid_pntr td)
                                   rw_var_values rw_grid log_rw_grid)
                            (\<lambda>(rw_grid, log_rw_grid).
                              Inr (td\<lparr>reweight_grid_pntr := Some rw_grid,
                                       log_reweight_grid_pntr := Some log_rw_grid\<rparr>)))))
                  else Inr td)))))"

section \<open>What an input asks for\<close>

text \<open>
  The input gives a keyword of the base class when the variant has registered the keyword
  and the input sets it: a positive value for the bias cutoff and for the well-tempered
  factor, the flag itself for the shift to zero and for the normalization. The bias cutoff
  is parsed whether the variant has registered it or not.
\<close>

definition gives_BIAS_CUTOFF :: "'a TargetDistributionOptions_scheme \<Rightarrow> bool" where
  "gives_BIAS_CUTOFF to = (case parse_BIAS_CUTOFF to of None \<Rightarrow> False | Some v \<Rightarrow> dlt (Fin 0) v)"

definition gives_negative_BIAS_CUTOFF :: "'a TargetDistributionOptions_scheme \<Rightarrow> bool" where
  "gives_negative_BIAS_CUTOFF to = (case parse_BIAS_CUTOFF to of None \<Rightarrow> False | Some v \<Rightarrow> dlt v (Fin 0))"

definition gives_WELLTEMPERED_FACTOR :: "'a TargetDistributionOptions_scheme \<Rightarrow> bool" where
  "gives_WELLTEMPERED_FACTOR to =
     (exists_WELLTEMPERED_FACTOR (getKeywords to) \<and>
      (case parse_WELLTEMPERED_FACTOR to of None \<Rightarrow> False | Some v \<Rightarrow> dlt (Fin 0) v))"

definition gives_SHIFT_TO_ZERO :: "'a TargetDistributionOptions_scheme \<Rightarrow> bool" where
  "gives_SHIFT_TO_ZERO to = (exists_SHIFT_TO_ZERO (getKeywords to) \<and> parseFlag_SHIFT_TO_ZERO to)"

definition gives_NORMALIZE :: "'a TargetDistributionOptions_scheme \<Rightarrow> bool" where
  "gives_NORMALIZE to = (exists_NORMALIZE (getKeywords to) \<and> parseFlag_NORMALIZE to)"

section \<open>The transforms in the words of the specification\<close>

text \<open>
  The bias-cutoff transform as the specification words it: at every point the value \<open>p\<close>,
  the bias \<open>b\<close> at the same index, the switching factor \<open>s\<close> and the derivative factor \<open>d\<close>
  of \<open>b\<close>; the integral is the quadrature-weighted sum of \<open>p s\<close>, and the grid holds
  \<open>p s d\<close> divided by that integral (as do the derivatives it stores).
\<close>

definition cutoff_transform_spec :: "VesBias \<Rightarrow> Grid \<Rightarrow> Grid \<Rightarrow> Grid" where
  "cutoff_transform_spec ves bias_grid grid =
     (let p = (\<lambda>l. getValue grid l);
          b = (\<lambda>l. getValue bias_grid l);
          s = (\<lambda>l. fst (getBiasCutoffSwitchingFunction ves (b l)));
          d = (\<lambda>l. snd (getBiasCutoffSwitchingFunction ves (b l)));
          integral = fold (\<lambda>l acc. dadd acc (dmul (getIntegrationWeights grid ! l) (dmul (p l) (s l))))
                       [0..<getSize grid] (Fin 0)
      in grid\<lparr>grid_values := map (\<lambda>l. ddiv (dmul (dmul (p l) (s l)) (d l)) integral) [0..<getSize grid],
              grid_ders := map (map (\<lambda>x. ddiv x integral)) (grid_ders grid)\<rparr>)"

text \<open>
  The well-tempered pass as the specification words it: \<open>v = (\<beta>/\<gamma>) F\<close> at every point; the
  value grid holds \<open>exp(-v)\<close> divided by the quadrature-weighted sum of \<open>exp(-v)\<close>, the log
  grid holds \<open>v\<close> with its minimum shifted to zero.
\<close>

definition welltempered_spec :: "double \<Rightarrow> double \<Rightarrow> Grid \<Rightarrow> Grid \<Rightarrow> Grid \<Rightarrow> Grid \<times> Grid" where
  "welltempered_spec beta gamma fes_grid grid log_grid =
     (let v = (\<lambda>l. dmul (ddiv beta gamma) (getValue fes_grid l));
          value = (\<lambda>l. dexp (dneg (v l)));
          total = fold (\<lambda>l acc. dadd acc (dmul (getIntegrationWeights grid ! l) (value l)))
                    [0..<getSize grid] (Fin 0)
      in (grid\<lparr>grid_values := map (\<lambda>l. ddiv (value l) total) [0..<getSize grid],
               grid_ders := map (map (\<lambda>x. ddiv x total)) (grid_ders grid)\<rparr>,
          log_grid\<lparr>grid_values := shift_min (map v [0..<getSize grid])\<rparr>))"

section \<open>Reading a run of the update\<close>

text \<open>The members that \<^verbatim>\<open>update()\<close> reads in its conditions and in its loop.\<close>

definition flags_of ::
  "TargetDistribution \<Rightarrow> bool \<times> bool \<times> bool \<times> bool \<times> bool \<times> bool \<times> TargetDistModifer list" where
  "flags_of td = (force_normalization td, check_normalization td, check_nonnegative td,
                  shift_targetdist_to_zero td, bias_cutoff_active td, reweight_grid_active td,
                  targetdist_modifer_pntrs td)"

fun is_step :: "event \<Rightarrow> bool" where
  "is_step (Warning_notNormalized _) = False"
| "is_step (Warning_negativeValues _) = False"
| "is_step _ = True"

definition steps_of :: "event list \<Rightarrow> event list" where
  "steps_of tr = filter is_step tr"

definition warnings_of :: "event list \<Rightarrow> event list" where
  "warnings_of tr = filter (\<lambda>ev. \<not> is_step ev) tr"

text \<open>
  The order of the steps in the words of the specification: the grid of the variant,
  each modifier in the order of registration, the cutoff transform if the bias cutoff is
  active, the shift to zero and the forced normalization only if it is not, the check of
  the normalization, the check of the non-negativity.
\<close>

definition expected_steps :: "TargetDistribution \<Rightarrow> event list" where
  "expected_steps td =
     [Step_updateGrid]
     @ map Step_applyModifer [0..<length (targetdist_modifer_pntrs td)]
     @ (if bias_cutoff_active td then [Step_biasCutoff] else [])
     @ (if shift_targetdist_to_zero td \<and> \<not> bias_cutoff_active td then [Step_shiftToZero] else [])
     @ (if force_normalization td \<and> \<not> bias_cutoff_active td then [Step_normalize] else [])
     @ (if check_normalization td \<and> \<not> bias_cutoff_active td then [Step_checkNormalization] else [])
     @ (if check_nonnegative td then [Step_checkNonNegative] else [])"

text \<open>
  A run follows a list of steps when its steps are that list if it succeeds, with a
  property of the state it ends in, and the beginning of that list if it fails.
\<close>

definition follows :: "'a traced \<Rightarrow> event list \<Rightarrow> ('a \<Rightarrow> bool) \<Rightarrow> bool" where
  "follows m evs P =
     (case m of
        (tr, Inl e) \<Rightarrow> prefix (steps_of tr) evs
      | (tr, Inr s) \<Rightarrow> steps_of tr = evs \<and> P s)"

text \<open>
  What a step of that list does to the distribution: the function of the source that the
  step names. The two checks read the value grid and leave the distribution as it is.
\<close>

fun perform ::
  "(TargetDistribution \<Rightarrow> error + TargetDistribution) \<Rightarrow> event \<Rightarrow> TargetDistribution
     \<Rightarrow> error + TargetDistribution" where
  "perform updateGrid Step_updateGrid td = updateGrid td"
| "perform updateGrid (Step_applyModifer i) td =
     applyTargetDistModiferToGrid (targetdist_modifer_pntrs td ! i) td"
| "perform updateGrid Step_biasCutoff td = updateBiasCutoffForTargetDistGrid td"
| "perform updateGrid Step_shiftToZero td = setMinimumOfTargetDistGridToZero td"
| "perform updateGrid Step_normalize td = normalizeTargetDistGrid td"
| "perform updateGrid Step_checkNormalization td =
     (case targetdist_grid_pntr td of None \<Rightarrow> Inl NullPointer | Some grid \<Rightarrow> Inr td)"
| "perform updateGrid Step_checkNonNegative td =
     (case targetdist_grid_pntr td of None \<Rightarrow> Inl NullPointer | Some grid \<Rightarrow> Inr td)"
| "perform updateGrid (Warning_notNormalized normalization) td = Inr td"
| "perform updateGrid (Warning_negativeValues grid_min_value) td = Inr td"

text \<open>The steps of a list performed one after the other, up to the first that fails.\<close>

definition perform_steps ::
  "(TargetDistribution \<Rightarrow> error + TargetDistribution) \<Rightarrow> event list \<Rightarrow> TargetDistribution
     \<Rightarrow> error + TargetDistribution" where
  "perform_steps updateGrid evs td = fold (\<lambda>ev r. ebind r (perform updateGrid ev)) evs (Inr td)"

text \<open>A run performs its record when what it returns is what the steps it recorded give.\<close>

definition performs ::
  "(TargetDistribution \<Rightarrow> error + TargetDistribution) \<Rightarrow> TargetDistribution
     \<Rightarrow> TargetDistribution traced \<Rightarrow> bool" where
  "performs updateGrid td m = (snd m = perform_steps updateGrid (steps_of (fst m)) td)"

section \<open>The log grid and the value grid\<close>











section \<open>Sample inputs\<close>

text \<open>A variant that has registered every keyword of the base class, with an empty input.\<close>

definition sample_keywords :: Keywords where
  "sample_keywords = \<lparr>exists_BIAS_CUTOFF = True, exists_WELLTEMPERED_FACTOR = True,
                        exists_SHIFT_TO_ZERO = True, exists_NORMALIZE = True\<rparr>"

definition sample_options :: TargetDistributionOptions where
  "sample_options = \<lparr>words_0 = ''UNIFORM'', getKeywords = sample_keywords,
     parse_BIAS_CUTOFF = None, parse_WELLTEMPERED_FACTOR = None,
     parseFlag_SHIFT_TO_ZERO = False, parseFlag_NORMALIZE = False\<rparr>"



text \<open>
  A grid of two points on the interval from 0 to 1 with the trapezoidal weights, the
  distribution that the empty input constructs, set up on that grid with the constant value
  1, and a bias that is linked to it: inverse temperature 1, a bias cutoff whose switching
  function has the factors \<open>(1, 1)\<close> at the bias 0 and \<open>(1/2, 1/2)\<close> elsewhere, a bias of
  \<open>[0, 1]\<close> and a free energy of \<open>[0, 2 ln 2]\<close>.
\<close>

definition sample_grid :: Grid where
  "sample_grid = \<lparr>grid_values = [Fin 1, Fin 1], grid_ders = [],
                   grid_points = [[Fin 0], [Fin 1]], grid_weights = [Fin (1/2), Fin (1/2)]\<rparr>"

definition sample_log_grid :: Grid where
  "sample_log_grid = sample_grid\<lparr>grid_values := [Fin 0, Fin 0]\<rparr>"

definition sample_bias_grid :: Grid where
  "sample_bias_grid = sample_grid\<lparr>grid_values := [Fin 0, Fin 1]\<rparr>"

definition sample_fes_grid :: Grid where
  "sample_fes_grid = sample_grid\<lparr>grid_values := [Fin 0, Fin (2 * ln 2)]\<rparr>"

definition sample_switching :: "double \<Rightarrow> double \<times> double" where
  "sample_switching bias = (if bias = Fin 0 then (Fin 1, Fin 1) else (Fin (1/2), Fin (1/2)))"

definition sample_ves :: VesBias where
  "sample_ves = \<lparr>ves_getBeta = Fin 1, ves_biasCutoffActive = True,
                  getBiasCutoffSwitchingFunction = sample_switching\<rparr>"

definition sample_td :: TargetDistribution where
  "sample_td = (initial_members sample_options)
     \<lparr>dimension := 1,
      targetdist_grid_pntr := Some sample_grid,
      log_targetdist_grid_pntr := Some sample_log_grid,
      vesbias_pntr := Some sample_ves,
      bias_withoutcutoff_grid_pntr := Some sample_bias_grid,
      fes_grid_pntr := Some sample_fes_grid\<rparr>"

definition sample_wt_options :: "double option \<Rightarrow> TD_WellTempered_Options" where
  "sample_wt_options biasfactor =
     \<lparr>words_0 = ''WELL_TEMPERED'',
      getKeywords = \<lparr>exists_BIAS_CUTOFF = True, exists_WELLTEMPERED_FACTOR = False,
                      exists_SHIFT_TO_ZERO = False, exists_NORMALIZE = False\<rparr>,
      parse_BIAS_CUTOFF = None, parse_WELLTEMPERED_FACTOR = None,
      parseFlag_SHIFT_TO_ZERO = False, parseFlag_NORMALIZE = False,
      parse_BIASFACTOR = biasfactor, wt_input_left = []\<rparr>"

text \<open>
  The uniform density on that interval as the \<^verbatim>\<open>getValue\<close> of a static variant, and the
  sample distribution as two other inputs construct it: with a well-tempered factor of 2
  and the forced normalization, and with a bias cutoff of 1.
\<close>

definition sample_getValue :: "double list \<Rightarrow> error + double" where
  "sample_getValue argument = Inr (Fin 1)"

definition sample_td_modified :: TargetDistribution where
  "sample_td_modified = sample_td
     \<lparr>targetdist_modifer_pntrs := [WellTemperedModifer (Fin 2)],
      force_normalization := True, check_normalization := False\<rparr>"

definition sample_td_cutoff :: TargetDistribution where
  "sample_td_cutoff = sample_td
     \<lparr>bias_cutoff_value := Fin 1, bias_cutoff_active := True,
      needs_bias_withoutcutoff_grid := True, type := dynamic_targetdist,
      check_normalization := False, force_normalization := False\<rparr>"

text \<open>A density that is not one: the constant \<open>-1\<close>.\<close>

definition sample_getValue_negative :: "double list \<Rightarrow> error + double" where
  "sample_getValue_negative argument = Inr (Fin (- 1))"

text \<open>
  A density that is not constant, 1 at the point 0 and 3 elsewhere, and the sample
  distribution as an input with the shift to zero constructs it.
\<close>

definition sample_getValue_step :: "double list \<Rightarrow> error + double" where
  "sample_getValue_step argument = (if argument = [Fin 0] then Inr (Fin 1) else Inr (Fin 3))"

definition sample_td_shifted :: TargetDistribution where
  "sample_td_shifted = sample_td\<lparr>shift_targetdist_to_zero := True, check_nonnegative := False\<rparr>"

text \<open>
  A density that is zero everywhere, as the virtual \<^verbatim>\<open>getValue\<close> and as the formula
  \<^verbatim>\<open>0*s1\<close>, and the sample distribution as an input with \<^verbatim>\<open>NORMALIZE\<close> constructs it.
\<close>

definition sample_getValue_zero :: "double list \<Rightarrow> error + double" where
  "sample_getValue_zero argument = Inr (Fin 0)"

definition sample_matheval_zero :: TD_Matheval where
  "sample_matheval_zero =
     \<lparr>evaluator_evaluate = (\<lambda>var_values. dmul (Fin 0) (var_values ! 0)),
      cv_var_idx = [0], use_fes = False, use_kbt = False, use_beta = False\<rparr>"

definition sample_td_normalize :: TargetDistribution where
  "sample_td_normalize = setForcedNormalization sample_td"

section \<open>Arithmetic and point loops\<close>

lemma dmul_reciprocal: "dmul x (ddiv (Fin 1) n) = ddiv x n"
  by (cases x; cases n) (auto simp: inf_times_def)

lemma upd_at_drop:
  "k < length vs \<Longrightarrow> (xs @ drop k vs)[length xs := v] = xs @ v # drop (Suc k) vs"
  by (simp add: list_update_append Cons_nth_drop_Suc[symmetric])

lemma nth_at_drop: "k < length vs \<Longrightarrow> (xs @ drop k vs) ! length xs = vs ! k"
  by (simp add: nth_append)

text \<open>A pass that reads and rewrites the value of one grid at each index, with an accumulator.\<close>

lemma fold_points2:
  assumes body: "\<And>l acc g. step l (acc, g) = (h l acc (getValue g l), setValue g l (f l (getValue g l)))"
    and k: "k \<le> getSize g"
  shows "fold step [0..<k] (a, g)
         = (fold (\<lambda>l acc. h l acc (getValue g l)) [0..<k] a,
            g\<lparr>grid_values := map (\<lambda>l. f l (getValue g l)) [0..<k] @ drop k (grid_values g)\<rparr>)"
  using k unfolding getValue_def getSize_def
proof (induction k)
  case 0 then show ?case by simp
next
  case (Suc k)
  then have k: "k < length (grid_values g)" by simp
  let ?xs = "map (\<lambda>l. f l (grid_values g ! l)) [0..<k]"
  have n: "(?xs @ drop k (grid_values g)) ! k = grid_values g ! k"
    using nth_at_drop[OF k, of ?xs] by simp
  have u: "(?xs @ drop k (grid_values g))[k := v] = ?xs @ v # drop (Suc k) (grid_values g)" for v
    using upd_at_drop[OF k, of ?xs v] by simp
  show ?case
    using Suc by (simp add: body getValue_def setValue_def n u)
qed


lemma fold_points3:
  assumes body: "\<And>l acc g lg. step l (acc, g, lg)
                   = (h l acc (getValue g l), setValue g l (f l (getValue g l)),
                      setValue lg l (f2 l (getValue g l)))"
    and k: "k \<le> getSize g" "k \<le> getSize lg"
  shows "fold step [0..<k] (a, g, lg)
         = (fold (\<lambda>l acc. h l acc (getValue g l)) [0..<k] a,
            g\<lparr>grid_values := map (\<lambda>l. f l (getValue g l)) [0..<k] @ drop k (grid_values g)\<rparr>,
            lg\<lparr>grid_values := map (\<lambda>l. f2 l (getValue g l)) [0..<k] @ drop k (grid_values lg)\<rparr>)"
  using k unfolding getValue_def getSize_def
proof (induction k)
  case 0 then show ?case by simp
next
  case (Suc k)
  then have k: "k < length (grid_values g)" and kl: "k < length (grid_values lg)" by simp_all
  let ?xs = "map (\<lambda>l. f l (grid_values g ! l)) [0..<k]"
  let ?ys = "map (\<lambda>l. f2 l (grid_values g ! l)) [0..<k]"
  have n: "(?xs @ drop k (grid_values g)) ! k = grid_values g ! k"
    using nth_at_drop[OF k, of ?xs] by simp
  have u: "(?xs @ drop k (grid_values g))[k := v] = ?xs @ v # drop (Suc k) (grid_values g)" for v
    using upd_at_drop[OF k, of ?xs v] by simp
  have ul: "(?ys @ drop k (grid_values lg))[k := v] = ?ys @ v # drop (Suc k) (grid_values lg)" for v
    using upd_at_drop[OF kl, of ?ys v] by simp
  show ?case
    using Suc by (simp add: body getValue_def setValue_def n u ul)
qed

section \<open>The sample inputs, evaluated\<close>

lemma sample_td_sel:
  "vesbias_pntr sample_td = Some sample_ves"
  "bias_withoutcutoff_grid_pntr sample_td = Some sample_bias_grid"
  "targetdist_grid_pntr sample_td = Some sample_grid"
  "log_targetdist_grid_pntr sample_td = Some sample_log_grid"
  "fes_grid_pntr sample_td = Some sample_fes_grid"
  "reweight_grid_active sample_td = False"
  "bias_cutoff_active sample_td = False"
  "shift_targetdist_to_zero sample_td = False"
  "force_normalization sample_td = False"
  "check_normalization sample_td = True"
  "check_nonnegative sample_td = True"
  "static_grid_calculated sample_td = False"
  "targetdist_modifer_pntrs sample_td = []"
  by (simp_all add: sample_td_def initial_members_def)

lemma sample_grid_sel:
  "getSize sample_grid = 2" "getSize sample_log_grid = 2"
  "grid_values sample_grid = [Fin 1, Fin 1]"
  "grid_values sample_bias_grid = [Fin 0, Fin 1]"
  "grid_values sample_fes_grid = [Fin 0, Fin (2 * ln 2)]"
  "grid_values sample_log_grid = [Fin 0, Fin 0]"
  "getIntegrationWeights sample_grid = [Fin (1/2), Fin (1/2)]"
  "grid_ders sample_grid = []"
  by (simp_all add: sample_grid_def sample_log_grid_def sample_bias_grid_def sample_fes_grid_def
        getSize_def getIntegrationWeights_def)

lemma upt_2: "[0..<2] = [0, 1]"
  by (simp add: numeral_2_eq_2)

section \<open>Loops over an index range\<close>


lemma fold_dadd_Fin:
  "k \<le> length rs \<Longrightarrow>
   fold (\<lambda>i s. dadd s (Fin (g i))) [0..<k] (Fin a) = Fin (a + (\<Sum>i<k. g i))"
  by (induction k) (simp_all add: add.assoc)



section \<open>Weights of the linear combination\<close>


lemma add_distribution_Inl [simp]: "add_distribution c (Inl e) = Inl e"
  by (simp add: add_distribution_def ebind_def)

lemma add_distribution_created_Inl [simp]: "add_distribution (Inl e) (Inr x) = Inl e"
  by (cases x) (simp add: add_distribution_def ebind_def)

lemma add_distribution_Inr:
  "\<exists>td1. add_distribution (Inr d) (Inr (td, ds)) = Inr (td1, ds @ [d])"
  by (simp add: add_distribution_def ebind_def Let_def)

lemma fold_add_distribution_Inl [simp]: "fold add_distribution cs (Inl e) = Inl e"
  by (induction cs) simp_all

lemma fold_add_distribution_length:
  "fold add_distribution cs (Inr (td, ds)) = Inr (td', ds') \<Longrightarrow> length ds' = length ds + length cs"
proof (induction cs arbitrary: td ds)
  case Nil then show ?case by simp
next
  case (Cons c cs)
  show ?case
  proof (cases c)
    case (Inl e)
    with Cons.prems show ?thesis by simp
  next
    case (Inr d)
    from add_distribution_Inr[of d td ds] obtain td1 where
      "add_distribution (Inr d) (Inr (td, ds)) = Inr (td1, ds @ [d])" by blast
    with Cons.prems Inr have
      "fold add_distribution cs (Inr (td1, ds @ [d])) = Inr (td', ds')" by simp
    from Cons.IH[OF this] show ?thesis by simp
  qed
qed











section \<open>Construction: rejected inputs and the well-tempered factor\<close>

lemma dlt_irrefl0: "dlt (Fin 0) v \<Longrightarrow> \<not> dlt v (Fin 0)"
  by (cases v) simp_all

lemmas ctor_defs = TargetDistribution_ctor_def ebind_def Let_def setupBiasCutoff_def
  setDynamic_def setBiasWithoutCutoffGridNeeded_def setForcedNormalization_def initial_members_def

text \<open>
  Claim C6. An input that gives a negative bias cutoff, or one of the combinations bias
  cutoff with well-tempered factor, bias cutoff with shift to zero, normalization with
  shift to zero, normalization with bias cutoff, makes the constructor end in a fatal
  error. The constructor allocates no grid: a distribution it returns has all four grid
  pointers NULL, so every such failure comes before any grid exists.
\<close>

theorem incompatible_keywords_rejected:
  "(gives_negative_BIAS_CUTOFF to
     \<or> (gives_BIAS_CUTOFF to \<and> gives_WELLTEMPERED_FACTOR to)
     \<or> (gives_BIAS_CUTOFF to \<and> gives_SHIFT_TO_ZERO to)
     \<or> (gives_NORMALIZE to \<and> gives_SHIFT_TO_ZERO to)
     \<or> (gives_NORMALIZE to \<and> gives_BIAS_CUTOFF to)
    \<longrightarrow> isl (TargetDistribution_ctor to))
 \<and> (\<forall>td. TargetDistribution_ctor to = Inr td \<longrightarrow>
        targetdist_grid_pntr td = None \<and> log_targetdist_grid_pntr td = None
      \<and> reweight_grid_pntr td = None \<and> log_reweight_grid_pntr td = None)"
proof (intro conjI impI allI)
  assume "gives_negative_BIAS_CUTOFF to
     \<or> (gives_BIAS_CUTOFF to \<and> gives_WELLTEMPERED_FACTOR to)
     \<or> (gives_BIAS_CUTOFF to \<and> gives_SHIFT_TO_ZERO to)
     \<or> (gives_NORMALIZE to \<and> gives_SHIFT_TO_ZERO to)
     \<or> (gives_NORMALIZE to \<and> gives_BIAS_CUTOFF to)"
  then show "isl (TargetDistribution_ctor to)"
    by (auto simp: ctor_defs gives_negative_BIAS_CUTOFF_def gives_BIAS_CUTOFF_def
          gives_WELLTEMPERED_FACTOR_def gives_SHIFT_TO_ZERO_def gives_NORMALIZE_def
          dest: dlt_irrefl0 split: option.splits)
next
  fix td assume "TargetDistribution_ctor to = Inr td"
  then show "targetdist_grid_pntr td = None" "log_targetdist_grid_pntr td = None"
      "reweight_grid_pntr td = None" "log_reweight_grid_pntr td = None"
    by (auto simp: ctor_defs split: option.splits if_splits)
qed


lemma sample_options_sel:
  "getKeywords sample_options = sample_keywords"
  "parse_BIAS_CUTOFF sample_options = None"
  "parse_WELLTEMPERED_FACTOR sample_options = None"
  "parseFlag_SHIFT_TO_ZERO sample_options = False"
  "parseFlag_NORMALIZE sample_options = False"
  "exists_BIAS_CUTOFF sample_keywords"
  "exists_WELLTEMPERED_FACTOR sample_keywords"
  "exists_SHIFT_TO_ZERO sample_keywords"
  "exists_NORMALIZE sample_keywords"
  by (simp_all add: sample_options_def sample_keywords_def)

lemmas gives_defs = gives_negative_BIAS_CUTOFF_def gives_BIAS_CUTOFF_def
  gives_WELLTEMPERED_FACTOR_def gives_SHIFT_TO_ZERO_def gives_NORMALIZE_def

text \<open>
  One input for each of the five rejections, and the empty input, which is accepted and
  leaves the grid pointer NULL.
\<close>

theorem incompatible_keywords_rejected_witness:
  "isl (TargetDistribution_ctor (sample_options\<lparr>parse_BIAS_CUTOFF := Some (Fin (- 1))\<rparr>))
 \<and> isl (TargetDistribution_ctor
          (sample_options\<lparr>parse_BIAS_CUTOFF := Some (Fin 1), parse_WELLTEMPERED_FACTOR := Some (Fin 2)\<rparr>))
 \<and> isl (TargetDistribution_ctor
          (sample_options\<lparr>parse_BIAS_CUTOFF := Some (Fin 1), parseFlag_SHIFT_TO_ZERO := True\<rparr>))
 \<and> isl (TargetDistribution_ctor
          (sample_options\<lparr>parseFlag_SHIFT_TO_ZERO := True, parseFlag_NORMALIZE := True\<rparr>))
 \<and> isl (TargetDistribution_ctor
          (sample_options\<lparr>parse_BIAS_CUTOFF := Some (Fin 1), parseFlag_NORMALIZE := True\<rparr>))
 \<and> map_sum id targetdist_grid_pntr (TargetDistribution_ctor sample_options) = Inr None"
proof -
  have ok: "TargetDistribution_ctor sample_options = Inr (initial_members sample_options)"
    by (simp add: ctor_defs sample_options_sel)
  show ?thesis
    using incompatible_keywords_rejected[of "sample_options\<lparr>parse_BIAS_CUTOFF := Some (Fin (- 1))\<rparr>"]
      incompatible_keywords_rejected[of "sample_options\<lparr>parse_BIAS_CUTOFF := Some (Fin 1), parse_WELLTEMPERED_FACTOR := Some (Fin 2)\<rparr>"]
      incompatible_keywords_rejected[of "sample_options\<lparr>parse_BIAS_CUTOFF := Some (Fin 1), parseFlag_SHIFT_TO_ZERO := True\<rparr>"]
      incompatible_keywords_rejected[of "sample_options\<lparr>parseFlag_SHIFT_TO_ZERO := True, parseFlag_NORMALIZE := True\<rparr>"]
      incompatible_keywords_rejected[of "sample_options\<lparr>parse_BIAS_CUTOFF := Some (Fin 1), parseFlag_NORMALIZE := True\<rparr>"]
      incompatible_keywords_rejected[of sample_options] ok
    by (simp add: gives_defs sample_options_sel)
qed

text \<open>
  Claim C10. For a variant that has registered the keyword: a strictly positive factor
  leaves exactly one modifier, the well-tempered one with that factor, in the distribution
  (the construction can still be rejected, by one of the rules of the bias cutoff or of the
  normalization only); a strictly negative factor ends the construction in a fatal error;
  a factor of exactly zero is treated as an absent keyword, raises neither error of this
  block and leaves no modifier.
\<close>

theorem welltempered_factor_three_cases:
  assumes "exists_WELLTEMPERED_FACTOR (getKeywords to)"
  shows "(\<forall>f. parse_WELLTEMPERED_FACTOR to = Some f \<and> dlt (Fin 0) f \<longrightarrow>
            (case TargetDistribution_ctor to of
               Inr td \<Rightarrow> targetdist_modifer_pntrs td = [WellTemperedModifer f]
             | Inl e \<Rightarrow> e \<in> {NegativeBiasCutoff, BiasCutoffNotSupported, WellTemperedWithBiasCutoff,
                              NormalizeWithShiftToZero}))
       \<and> (\<forall>f. parse_WELLTEMPERED_FACTOR to = Some f \<and> dlt f (Fin 0) \<longrightarrow>
            (case TargetDistribution_ctor to of
               Inr td \<Rightarrow> False
             | Inl e \<Rightarrow> e \<in> {NegativeBiasCutoff, BiasCutoffNotSupported, NegativeWellTemperedFactor}))
       \<and> (parse_WELLTEMPERED_FACTOR to = Some (Fin 0) \<or> parse_WELLTEMPERED_FACTOR to = None \<longrightarrow>
            TargetDistribution_ctor to = TargetDistribution_ctor (to\<lparr>parse_WELLTEMPERED_FACTOR := None\<rparr>)
            \<and> (case TargetDistribution_ctor to of
                 Inr td \<Rightarrow> targetdist_modifer_pntrs td = []
               | Inl e \<Rightarrow> e \<noteq> NegativeWellTemperedFactor \<and> e \<noteq> WellTemperedWithBiasCutoff))"
  using assms
  by (auto simp: ctor_defs dest: dlt_irrefl0 split: option.splits sum.splits if_splits)


text \<open>The three cases at the factors 2, -2 and 0.\<close>

theorem welltempered_factor_three_cases_witness:
  "map_sum id targetdist_modifer_pntrs
     (TargetDistribution_ctor (sample_options\<lparr>parse_WELLTEMPERED_FACTOR := Some (Fin 2)\<rparr>))
     = Inr [WellTemperedModifer (Fin 2)]
 \<and> isl (TargetDistribution_ctor (sample_options\<lparr>parse_WELLTEMPERED_FACTOR := Some (Fin (- 2))\<rparr>))
 \<and> map_sum id targetdist_modifer_pntrs
     (TargetDistribution_ctor (sample_options\<lparr>parse_WELLTEMPERED_FACTOR := Some (Fin 0)\<rparr>))
     = Inr []"
proof -
  let ?pos = "sample_options\<lparr>parse_WELLTEMPERED_FACTOR := Some (Fin 2)\<rparr>"
  let ?neg = "sample_options\<lparr>parse_WELLTEMPERED_FACTOR := Some (Fin (- 2))\<rparr>"
  let ?zero = "sample_options\<lparr>parse_WELLTEMPERED_FACTOR := Some (Fin 0)\<rparr>"
  have pos: "\<not> isl (TargetDistribution_ctor ?pos)" and zero: "\<not> isl (TargetDistribution_ctor ?zero)"
    by (simp_all add: ctor_defs sample_options_sel)
  have "case TargetDistribution_ctor ?pos of
          Inr td \<Rightarrow> targetdist_modifer_pntrs td = [WellTemperedModifer (Fin 2)]
        | Inl e \<Rightarrow> e \<in> {NegativeBiasCutoff, BiasCutoffNotSupported, WellTemperedWithBiasCutoff,
                              NormalizeWithShiftToZero}"
    using welltempered_factor_three_cases[of ?pos] by (simp add: sample_options_sel)
  with pos have 1: "map_sum id targetdist_modifer_pntrs (TargetDistribution_ctor ?pos)
                    = Inr [WellTemperedModifer (Fin 2)]"
    by (cases "TargetDistribution_ctor ?pos") simp_all
  have "case TargetDistribution_ctor ?neg of Inr td \<Rightarrow> False
        | Inl e \<Rightarrow> e \<in> {NegativeBiasCutoff, BiasCutoffNotSupported, NegativeWellTemperedFactor}"
    using welltempered_factor_three_cases[of ?neg] by (simp add: sample_options_sel)
  then have 2: "isl (TargetDistribution_ctor ?neg)"
    by (cases "TargetDistribution_ctor ?neg") simp_all
  have "case TargetDistribution_ctor ?zero of Inr td \<Rightarrow> targetdist_modifer_pntrs td = []
        | Inl e \<Rightarrow> e \<noteq> NegativeWellTemperedFactor \<and> e \<noteq> WellTemperedWithBiasCutoff"
    using welltempered_factor_three_cases[of ?zero] by (auto simp add: sample_options_sel)
  with zero have 3: "map_sum id targetdist_modifer_pntrs (TargetDistribution_ctor ?zero) = Inr []"
    by (cases "TargetDistribution_ctor ?zero") simp_all
  from 1 2 3 show ?thesis by simp
qed

section \<open>The bias-cutoff transform\<close>

lemma cutoff_point_eq:
  "cutoff_point ves w bias_grid l (acc, g) =
     (dadd acc (dmul (w ! l) (dmul (getValue g l) (fst (getBiasCutoffSwitchingFunction ves (getValue bias_grid l))))),
      setValue g l (dmul (dmul (getValue g l) (fst (getBiasCutoffSwitchingFunction ves (getValue bias_grid l))))
                      (snd (getBiasCutoffSwitchingFunction ves (getValue bias_grid l)))))"
  by (simp add: cutoff_point_def Let_def split: prod.splits)

lemma cutoff_pass_spec: "cutoff_pass ves bias_grid grid = cutoff_transform_spec ves bias_grid grid"
proof -
  let ?S = "\<lambda>l. getBiasCutoffSwitchingFunction ves (getValue bias_grid l)"
  let ?w = "getIntegrationWeights grid"
  have "fold (cutoff_point ves ?w bias_grid) [0..<getSize grid] (Fin 0, grid)
      = (fold (\<lambda>l acc. dadd acc (dmul (?w ! l) (dmul (getValue grid l) (fst (?S l))))) [0..<getSize grid] (Fin 0),
         grid\<lparr>grid_values := map (\<lambda>l. dmul (dmul (getValue grid l) (fst (?S l))) (snd (?S l))) [0..<getSize grid]
                               @ drop (getSize grid) (grid_values grid)\<rparr>)"
    by (rule fold_points2[where h = "\<lambda>l acc v. dadd acc (dmul (?w ! l) (dmul v (fst (?S l))))"
                            and f = "\<lambda>l v. dmul (dmul v (fst (?S l))) (snd (?S l))"])
       (simp_all add: cutoff_point_eq)
  then show ?thesis
    by (simp add: cutoff_pass_def cutoff_transform_spec_def Let_def scaleAllValuesAndDerivatives_def
          dmul_reciprocal getSize_def o_def)
qed

text \<open>
  Claim C3. With the bias linked and its cutoff active, and the bias grid without cutoff
  linked, the cutoff transform succeeds and replaces the value grid by the transform in
  the words of the specification: \<open>p s d\<close> at every point, divided after the full pass by
  the quadrature-weighted integral of \<open>p s\<close>. When the reweighting pair is active (and
  linked), its grid is transformed in the same way from its own values, its own bias grid
  and its own integral. Nothing else of the distribution changes.
\<close>

theorem bias_cutoff_transform:
  assumes "vesbias_pntr td = Some ves" and "ves_biasCutoffActive ves"
    and "bias_withoutcutoff_grid_pntr td = Some bias_grid"
    and "targetdist_grid_pntr td = Some grid"
  shows "(\<not> reweight_grid_active td \<longrightarrow>
            updateBiasCutoffForTargetDistGrid td
            = Inr (td\<lparr>targetdist_grid_pntr := Some (cutoff_transform_spec ves bias_grid grid)\<rparr>))
       \<and> (\<forall>rw_grid bias_rwgrid.
            reweight_grid_active td \<and> reweight_grid_pntr td = Some rw_grid
            \<and> bias_withoutcutoff_rwgrid_pntr td = Some bias_rwgrid \<longrightarrow>
            updateBiasCutoffForTargetDistGrid td
            = Inr (td\<lparr>targetdist_grid_pntr := Some (cutoff_transform_spec ves bias_grid grid),
                       reweight_grid_pntr := Some (cutoff_transform_spec ves bias_rwgrid rw_grid)\<rparr>))"
  using assms
  by (simp add: updateBiasCutoffForTargetDistGrid_def Let_def cutoff_pass_spec)


lemma cutoff_sample: "grid_values (cutoff_transform_spec sample_ves sample_bias_grid sample_grid) = [Fin (4/3), Fin (1/3)]"
  by (simp add: cutoff_transform_spec_def Let_def sample_grid_sel upt_2 getValue_def
       sample_ves_def sample_switching_def)

text \<open>
  On the sample: \<open>p s\<close> is \<open>[1, 1/2]\<close>, its integral \<open>3/4\<close>, \<open>p s d\<close> is \<open>[1, 1/4]\<close>.
\<close>

theorem bias_cutoff_transform_witness:
  "map_sum id (map_option grid_values \<circ> targetdist_grid_pntr)
     (updateBiasCutoffForTargetDistGrid sample_td) = Inr (Some [Fin (4/3), Fin (1/3)])"
proof -
  have "ves_biasCutoffActive sample_ves" by (simp add: sample_ves_def)
  with bias_cutoff_transform[of sample_td sample_ves sample_bias_grid sample_grid]
  show ?thesis by (simp add: sample_td_sel cutoff_sample)
qed

section \<open>The well-tempered pass\<close>

lemma welltempered_point_eq:
  "welltempered_point bp w fes l (acc, g, lg) =
     (dadd acc (dmul (w ! l) (dexp (dneg (dmul bp (getValue fes l))))),
      setValue g l (dexp (dneg (dmul bp (getValue fes l)))),
      setValue lg l (dmul bp (getValue fes l)))"
  by (simp add: welltempered_point_def Let_def)

lemma welltempered_pass_spec:
  assumes "getSize log_grid = getSize grid"
  shows "welltempered_pass (ddiv beta gamma) fes_grid grid log_grid
         = welltempered_spec beta gamma fes_grid grid log_grid"
proof -
  let ?bp = "ddiv beta gamma"
  let ?w = "getIntegrationWeights grid"
  let ?v = "\<lambda>l. dmul ?bp (getValue fes_grid l)"
  have "fold (welltempered_point ?bp ?w fes_grid) [0..<getSize grid] (Fin 0, grid, log_grid)
      = (fold (\<lambda>l acc. dadd acc (dmul (?w ! l) (dexp (dneg (?v l))))) [0..<getSize grid] (Fin 0),
         grid\<lparr>grid_values := map (\<lambda>l. dexp (dneg (?v l))) [0..<getSize grid]
                               @ drop (getSize grid) (grid_values grid)\<rparr>,
         log_grid\<lparr>grid_values := map ?v [0..<getSize grid] @ drop (getSize grid) (grid_values log_grid)\<rparr>)"
    using assms
    by (intro fold_points3[where h = "\<lambda>l acc v. dadd acc (dmul (?w ! l) (dexp (dneg (?v l))))"
                            and f = "\<lambda>l v. dexp (dneg (?v l))" and ?f2.0 = "\<lambda>l v. ?v l"])
       (simp_all add: welltempered_point_eq)
  then show ?thesis
    using assms
    by (simp add: welltempered_pass_def welltempered_spec_def Let_def scaleAllValuesAndDerivatives_def
          setMinToZero_def dmul_reciprocal getSize_def o_def)
qed

text \<open>
  Claim C4. With the bias and the free-energy grid linked, \<^verbatim>\<open>updateGrid()\<close> of the
  well-tempered variant succeeds and leaves the two grids as the specification words them:
  \<open>v = (\<beta>/\<gamma>) F\<close> in the log grid, shifted to minimum zero, and \<open>exp(-v)\<close> divided by its
  quadrature-weighted sum in the value grid; the reweighting pair, when active, gets the
  same from its own free-energy grid. A construction with \<open>\<gamma> \<le> 1\<close> ends in a fatal error.
\<close>

theorem welltempered_updateGrid:
  "(\<forall>ves fes_grid grid log_grid.
      vesbias_pntr td = Some ves \<and> fes_grid_pntr td = Some fes_grid
      \<and> targetdist_grid_pntr td = Some grid \<and> log_targetdist_grid_pntr td = Some log_grid
      \<and> getSize log_grid = getSize grid \<longrightarrow>
      (\<not> reweight_grid_active td \<longrightarrow>
         TD_WellTempered_updateGrid gamma td
         = Inr (td\<lparr>targetdist_grid_pntr :=
                      Some (fst (welltempered_spec (ves_getBeta ves) gamma fes_grid grid log_grid)),
                    log_targetdist_grid_pntr :=
                      Some (snd (welltempered_spec (ves_getBeta ves) gamma fes_grid grid log_grid))\<rparr>))
    \<and> (\<forall>fes_rwgrid rw_grid log_rw_grid.
         reweight_grid_active td \<and> fes_rwgrid_pntr td = Some fes_rwgrid
         \<and> reweight_grid_pntr td = Some rw_grid \<and> log_reweight_grid_pntr td = Some log_rw_grid
         \<and> getSize log_rw_grid = getSize rw_grid \<longrightarrow>
         TD_WellTempered_updateGrid gamma td
         = Inr (td\<lparr>targetdist_grid_pntr :=
                      Some (fst (welltempered_spec (ves_getBeta ves) gamma fes_grid grid log_grid)),
                    log_targetdist_grid_pntr :=
                      Some (snd (welltempered_spec (ves_getBeta ves) gamma fes_grid grid log_grid)),
                    reweight_grid_pntr :=
                      Some (fst (welltempered_spec (ves_getBeta ves) gamma fes_rwgrid rw_grid log_rw_grid)),
                    log_reweight_grid_pntr :=
                      Some (snd (welltempered_spec (ves_getBeta ves) gamma fes_rwgrid rw_grid log_rw_grid))\<rparr>)))
 \<and> (\<forall>to. parse_BIASFACTOR to = Some gamma \<and> dle gamma (Fin 1) \<longrightarrow> isl (TD_WellTempered_ctor to))"
proof (intro conjI allI impI)
  fix ves fes_grid grid log_grid
  assume a: "vesbias_pntr td = Some ves \<and> fes_grid_pntr td = Some fes_grid
      \<and> targetdist_grid_pntr td = Some grid \<and> log_targetdist_grid_pntr td = Some log_grid
      \<and> getSize log_grid = getSize grid"
  then have p: "welltempered_pass (ddiv (ves_getBeta ves) gamma) fes_grid grid log_grid
         = welltempered_spec (ves_getBeta ves) gamma fes_grid grid log_grid"
    by (intro welltempered_pass_spec) simp
  {
    assume "\<not> reweight_grid_active td"
    with a p show "TD_WellTempered_updateGrid gamma td
      = Inr (td\<lparr>targetdist_grid_pntr :=
                   Some (fst (welltempered_spec (ves_getBeta ves) gamma fes_grid grid log_grid)),
                 log_targetdist_grid_pntr :=
                   Some (snd (welltempered_spec (ves_getBeta ves) gamma fes_grid grid log_grid))\<rparr>)"
      by (simp add: TD_WellTempered_updateGrid_def getBeta_def ebind_def Let_def split: prod.splits)
  }
  {
    fix fes_rwgrid rw_grid log_rw_grid
    assume r: "reweight_grid_active td \<and> fes_rwgrid_pntr td = Some fes_rwgrid
         \<and> reweight_grid_pntr td = Some rw_grid \<and> log_reweight_grid_pntr td = Some log_rw_grid
         \<and> getSize log_rw_grid = getSize rw_grid"
    then have "welltempered_pass (ddiv (ves_getBeta ves) gamma) fes_rwgrid rw_grid log_rw_grid
         = welltempered_spec (ves_getBeta ves) gamma fes_rwgrid rw_grid log_rw_grid"
      by (intro welltempered_pass_spec) simp
    with a p r show "TD_WellTempered_updateGrid gamma td
         = Inr (td\<lparr>targetdist_grid_pntr :=
                      Some (fst (welltempered_spec (ves_getBeta ves) gamma fes_grid grid log_grid)),
                    log_targetdist_grid_pntr :=
                      Some (snd (welltempered_spec (ves_getBeta ves) gamma fes_grid grid log_grid)),
                    reweight_grid_pntr :=
                      Some (fst (welltempered_spec (ves_getBeta ves) gamma fes_rwgrid rw_grid log_rw_grid)),
                    log_reweight_grid_pntr :=
                      Some (snd (welltempered_spec (ves_getBeta ves) gamma fes_rwgrid rw_grid log_rw_grid))\<rparr>)"
      by (simp add: TD_WellTempered_updateGrid_def getBeta_def ebind_def Let_def split: prod.splits)
  }
next
  fix to :: TD_WellTempered_Options
  assume "parse_BIASFACTOR to = Some gamma \<and> dle gamma (Fin 1)"
  then show "isl (TD_WellTempered_ctor to)"
    by (cases "TargetDistribution_ctor to") (simp_all add: TD_WellTempered_ctor_def ebind_def)
qed

lemma wt_sample:
  "grid_values (fst (welltempered_spec (Fin 1) (Fin 2) sample_fes_grid sample_grid sample_log_grid)) = [Fin (4/3), Fin (2/3)]"
  "grid_values (snd (welltempered_spec (Fin 1) (Fin 2) sample_fes_grid sample_grid sample_log_grid)) = [Fin 0, Fin (ln 2)]"
  by (simp_all add: welltempered_spec_def Let_def sample_grid_sel upt_2 getValue_def shift_min_def scan_min_def dsub_def
        exp_minus)


text \<open>
  On the sample with \<open>\<gamma> = 2\<close>: \<open>v\<close> is \<open>[0, ln 2]\<close>, \<open>exp(-v)\<close> is \<open>[1, 1/2]\<close> with the sum
  \<open>3/4\<close>; and the construction with \<open>\<gamma> = 1\<close> fails.
\<close>

theorem welltempered_updateGrid_witness:
  "map_sum id (map_option grid_values \<circ> targetdist_grid_pntr)
     (TD_WellTempered_updateGrid (Fin 2) sample_td) = Inr (Some [Fin (4/3), Fin (2/3)])
 \<and> map_sum id (map_option grid_values \<circ> log_targetdist_grid_pntr)
     (TD_WellTempered_updateGrid (Fin 2) sample_td) = Inr (Some [Fin 0, Fin (ln 2)])
 \<and> isl (TD_WellTempered_ctor (sample_wt_options (Some (Fin 1))))"
proof -
  have b: "ves_getBeta sample_ves = Fin 1" by (simp add: sample_ves_def)
  have g: "parse_BIASFACTOR (sample_wt_options (Some (Fin 1))) = Some (Fin 1)" "dle (Fin 1) (Fin 1)"
    by (simp_all add: sample_wt_options_def dle_def)
  note w = welltempered_updateGrid[of sample_td "Fin 2"]
  from w have "TD_WellTempered_updateGrid (Fin 2) sample_td
      = Inr (sample_td\<lparr>targetdist_grid_pntr :=
                   Some (fst (welltempered_spec (Fin 1) (Fin 2) sample_fes_grid sample_grid sample_log_grid)),
                 log_targetdist_grid_pntr :=
                   Some (snd (welltempered_spec (Fin 1) (Fin 2) sample_fes_grid sample_grid sample_log_grid))\<rparr>)"
    using b by (simp add: sample_td_sel sample_grid_sel)
  moreover from welltempered_updateGrid[of sample_td "Fin 1"] g
  have "isl (TD_WellTempered_ctor (sample_wt_options (Some (Fin 1))))" by blast
  ultimately show ?thesis by (simp add: wt_sample)
qed

section \<open>The order of the steps of the update\<close>

lemma ebind_Inr_iff: "ebind r f = Inr y \<longleftrightarrow> (\<exists>x. r = Inr x \<and> f x = Inr y)"
  by (cases r) (simp_all add: ebind_def)

lemma normalizeGrid_fst: "fst (normalizeGrid g) = scaleAllValuesAndDerivatives g (ddiv (Fin 1) (integrateGrid g))"
  and normalizeGrid_snd: "snd (normalizeGrid g) = integrateGrid g"
  by (simp_all add: normalizeGrid_def Let_def)

lemma flags_of_update [simp]:
  "flags_of (td\<lparr>targetdist_grid_pntr := a\<rparr>) = flags_of td"
  "flags_of (td\<lparr>log_targetdist_grid_pntr := a\<rparr>) = flags_of td"
  "flags_of (td\<lparr>reweight_grid_pntr := a\<rparr>) = flags_of td"
  "flags_of (td\<lparr>log_reweight_grid_pntr := a\<rparr>) = flags_of td"
  "flags_of (td\<lparr>static_grid_calculated := b\<rparr>) = flags_of td"
  by (simp_all add: flags_of_def)

lemma flags_normalizeTargetDistGrid:
  "normalizeTargetDistGrid td = Inr td' \<Longrightarrow> flags_of td' = flags_of td"
  by (auto simp: normalizeTargetDistGrid_def Let_def
           split: option.splits prod.splits if_splits)

lemma flags_updateLogTargetDistGrid:
  "updateLogTargetDistGrid td = Inr td' \<Longrightarrow> flags_of td' = flags_of td"
  by (auto simp: updateLogTargetDistGrid_def Let_def
           split: option.splits prod.splits if_splits)

lemma flags_setMinimumOfTargetDistGridToZero:
  assumes "setMinimumOfTargetDistGridToZero td = Inr td'"
  shows "flags_of td' = flags_of td"
proof -
  from assms obtain g t1 t2 where
    "targetdist_grid_pntr td = Some g"
    and 1: "(let td = td\<lparr>targetdist_grid_pntr := Some (setMinToZero g)\<rparr>
               in if reweight_grid_active td then
                    (case reweight_grid_pntr td of None \<Rightarrow> Inl NullPointer
                     | Some rw_grid \<Rightarrow> Inr (td\<lparr>reweight_grid_pntr := Some (setMinToZero rw_grid)\<rparr>))
                  else Inr td) = Inr t1"
    and 2: "normalizeTargetDistGrid t1 = Inr t2" and 3: "updateLogTargetDistGrid t2 = Inr td'"
    by (auto simp: setMinimumOfTargetDistGridToZero_def ebind_Inr_iff split: option.splits)
  from 1 have "flags_of t1 = flags_of td"
    by (auto simp: Let_def split: if_splits option.splits)
  with flags_normalizeTargetDistGrid[OF 2] flags_updateLogTargetDistGrid[OF 3]
  show ?thesis by simp
qed

lemma flags_applyTargetDistModiferToGrid:
  "applyTargetDistModiferToGrid m td = Inr td' \<Longrightarrow> flags_of td' = flags_of td"
  by (auto simp: applyTargetDistModiferToGrid_def Let_def
           split: option.splits prod.splits if_splits)

lemma flags_updateBiasCutoffForTargetDistGrid:
  "updateBiasCutoffForTargetDistGrid td = Inr td' \<Longrightarrow> flags_of td' = flags_of td"
  by (auto simp: updateBiasCutoffForTargetDistGrid_def Let_def
           split: option.splits prod.splits if_splits)

lemma flags_calculateStaticDistributionGrid:
  "calculateStaticDistributionGrid gv td = Inr td' \<Longrightarrow> flags_of td' = flags_of td"
proof -
  have "\<forall>td'. calculateStaticDistributionGrid gv td = Inr td' \<longrightarrow> flags_of td' = flags_of td"
    by (simp add: calculateStaticDistributionGrid_def Let_def ebind_def
             split: option.split prod.split sum.split)
  then show "calculateStaticDistributionGrid gv td = Inr td' \<Longrightarrow> flags_of td' = flags_of td"
    by blast
qed

lemma flags_TD_WellTempered_updateGrid:
  "TD_WellTempered_updateGrid gamma td = Inr td' \<Longrightarrow> flags_of td' = flags_of td"
proof -
  have "\<forall>td'. TD_WellTempered_updateGrid gamma td = Inr td' \<longrightarrow> flags_of td' = flags_of td"
    by (simp add: TD_WellTempered_updateGrid_def Let_def ebind_def
             split: option.split prod.split sum.split)
  then show "TD_WellTempered_updateGrid gamma td = Inr td' \<Longrightarrow> flags_of td' = flags_of td"
    by blast
qed


lemma steps_of_simps [simp]:
  "steps_of [] = []"
  "steps_of (tr @ tr') = steps_of tr @ steps_of tr'"
  "steps_of (ev # tr) = (if is_step ev then ev # steps_of tr else steps_of tr)"
  by (simp_all add: steps_of_def)

lemma follows_tbind:
  assumes "follows m evs1 P" and "\<And>s. P s \<Longrightarrow> follows (f s) evs2 Q"
  shows "follows (tbind m f) (evs1 @ evs2) Q"
proof (cases m)
  case (Pair tr r)
  show ?thesis
  proof (cases r)
    case (Inl e)
    with Pair assms(1) show ?thesis
      by (auto simp add: follows_def tbind_def intro: prefix_order.trans)
  next
    case (Inr s)
    with Pair assms(1) have tr: "steps_of tr = evs1" and "P s" by (simp_all add: follows_def)
    from assms(2)[OF \<open>P s\<close>] Pair Inr tr show ?thesis
      by (cases "f s"; cases "snd (f s)") (auto simp: follows_def tbind_def)
  qed
qed

lemma follows_enter:
  assumes "is_step ev" and "\<And>s'. r = Inr s' \<Longrightarrow> P s'"
  shows "follows (enter ev r) [ev] P"
  using assms by (cases r) (simp_all add: follows_def enter_def)

lemma follows_skip: "P s \<Longrightarrow> follows (skip s) [] P"
  by (simp add: follows_def skip_def)

lemma follows_checkNormalization:
  "P td \<Longrightarrow> follows (checkNormalization td) [Step_checkNormalization] P"
  by (simp add: follows_def checkNormalization_def enter_def Let_def split: option.split)

lemma follows_checkNonNegative:
  "P td \<Longrightarrow> follows (checkNonNegative td) [Step_checkNonNegative] P"
  by (simp add: follows_def checkNonNegative_def enter_def Let_def split: option.split)

lemma follows_modifier_loop:
  "follows (fold (\<lambda>i run. tbind run (\<lambda>td.
                     enter (Step_applyModifer i)
                       (applyTargetDistModiferToGrid (targetdist_modifer_pntrs td ! i) td)))
              [0..<k] (skip td1))
     (map Step_applyModifer [0..<k]) (\<lambda>s. flags_of s = flags_of td1)"
proof (induction k)
  case 0 show ?case by (simp add: follows_skip)
next
  case (Suc k)
  have "follows (tbind (fold (\<lambda>i run. tbind run (\<lambda>td.
                     enter (Step_applyModifer i)
                       (applyTargetDistModiferToGrid (targetdist_modifer_pntrs td ! i) td)))
              [0..<k] (skip td1)) (\<lambda>td.
                     enter (Step_applyModifer k)
                       (applyTargetDistModiferToGrid (targetdist_modifer_pntrs td ! k) td)))
          (map Step_applyModifer [0..<k] @ [Step_applyModifer k]) (\<lambda>s. flags_of s = flags_of td1)"
    by (rule follows_tbind[OF Suc]) (auto intro!: follows_enter dest: flags_applyTargetDistModiferToGrid)
  then show ?case by simp
qed

lemma flags_of_sel:
  "flags_of s = flags_of t \<Longrightarrow>
     force_normalization s = force_normalization t \<and> check_normalization s = check_normalization t
   \<and> check_nonnegative s = check_nonnegative t \<and> shift_targetdist_to_zero s = shift_targetdist_to_zero t
   \<and> bias_cutoff_active s = bias_cutoff_active t \<and> reweight_grid_active s = reweight_grid_active t
   \<and> targetdist_modifer_pntrs s = targetdist_modifer_pntrs t"
  by (simp add: flags_of_def)

lemma follows_update:
  assumes "updateGrid td = Inr td1"
  shows "follows (update updateGrid td) (expected_steps td1) (\<lambda>s. flags_of s = flags_of td1)"
proof -
  let ?P = "\<lambda>s. flags_of s = flags_of td1"
  have A: "follows (enter Step_updateGrid (updateGrid td)) [Step_updateGrid] (\<lambda>s. s = td1)"
    using assms by (intro follows_enter) simp_all
  have G: "follows (if check_nonnegative s then checkNonNegative s else skip s)
             (if check_nonnegative td1 then [Step_checkNonNegative] else []) ?P" if "?P s" for s
    using that flags_of_sel[OF that] by (simp add: follows_checkNonNegative follows_skip)
  have F: "follows (if check_normalization s \<and> \<not> bias_cutoff_active s then checkNormalization s else skip s)
             (if check_normalization td1 \<and> \<not> bias_cutoff_active td1 then [Step_checkNormalization] else []) ?P"
    if "?P s" for s
    using that flags_of_sel[OF that] by (simp add: follows_checkNormalization follows_skip)
  have E: "follows (if force_normalization s \<and> \<not> bias_cutoff_active s
                    then enter Step_normalize (normalizeTargetDistGrid s) else skip s)
             (if force_normalization td1 \<and> \<not> bias_cutoff_active td1 then [Step_normalize] else []) ?P"
    if "?P s" for s
    using that flags_of_sel[OF that]
    by (auto simp: follows_skip intro!: follows_enter dest: flags_normalizeTargetDistGrid)
  have D: "follows (if shift_targetdist_to_zero s \<and> \<not> bias_cutoff_active s
                    then enter Step_shiftToZero (setMinimumOfTargetDistGridToZero s) else skip s)
             (if shift_targetdist_to_zero td1 \<and> \<not> bias_cutoff_active td1 then [Step_shiftToZero] else []) ?P"
    if "?P s" for s
    using that flags_of_sel[OF that]
    by (auto simp: follows_skip intro!: follows_enter dest: flags_setMinimumOfTargetDistGridToZero)
  have C: "follows (if bias_cutoff_active s
                    then enter Step_biasCutoff (updateBiasCutoffForTargetDistGrid s) else skip s)
             (if bias_cutoff_active td1 then [Step_biasCutoff] else []) ?P"
    if "?P s" for s
    using that flags_of_sel[OF that]
    by (auto simp: follows_skip intro!: follows_enter dest: flags_updateBiasCutoffForTargetDistGrid)
  have B: "follows (fold (\<lambda>i run. tbind run (\<lambda>td.
                     enter (Step_applyModifer i)
                       (applyTargetDistModiferToGrid (targetdist_modifer_pntrs td ! i) td)))
              [0..<length (targetdist_modifer_pntrs s)] (skip s))
             (map Step_applyModifer [0..<length (targetdist_modifer_pntrs td1)]) ?P" if "s = td1" for s
    using that follows_modifier_loop[of "length (targetdist_modifer_pntrs td1)" td1] by simp
  show ?thesis
    unfolding update_def expected_steps_def
    by (intro follows_tbind[OF A] follows_tbind[OF B] follows_tbind[OF C] follows_tbind[OF D]
          follows_tbind[OF E] follows_tbind[OF F] G)
qed


lemma after_marker:
  assumes "prefix (a @ c # b) (pre @ rest)" and "c \<notin> set pre"
  shows "set b \<subseteq> set rest"
proof -
  from assms(1) obtain zs where "a @ (c # b @ zs) = pre @ rest" by (auto simp: prefix_def)
  then consider us where "a = pre @ us" "us @ c # b @ zs = rest"
    | us where "a @ us = pre" "c # b @ zs = us @ rest"
    by (auto simp: append_eq_append_conv2)
  then show ?thesis
  proof cases
    case 1
    then have "set (c # b @ zs) \<subseteq> set rest" by auto
    then show ?thesis by auto
  next
    case 2
    show ?thesis
    proof (cases us)
      case Nil
      with 2 have "rest = c # b @ zs" by simp
      then show ?thesis by auto
    next
      case (Cons u us')
      with 2 have "c \<in> set pre" by auto
      with assms(2) show ?thesis by simp
    qed
  qed
qed

lemma in_steps_of: "is_step ev \<Longrightarrow> ev \<in> set (steps_of tr) \<longleftrightarrow> ev \<in> set tr"
  by (simp add: steps_of_def)

lemma perform_steps_Nil: "perform_steps ug [] td = Inr td"
  by (simp add: perform_steps_def)

lemma fold_ebind_Inl: "fold (\<lambda>ev r. ebind r (f ev)) evs (Inl e) = Inl e"
  by (induction evs) (simp_all add: ebind_def)

lemma perform_steps_Cons: "perform_steps ug (ev # evs) td = ebind (perform ug ev td) (perform_steps ug evs)"
  using fold_ebind_Inl[of "perform ug" evs]
  by (cases "perform ug ev td") (simp_all add: perform_steps_def ebind_def)

lemma perform_steps_append:
  "perform_steps ug (evs @ evs') td = ebind (perform_steps ug evs td) (perform_steps ug evs')"
proof (induction evs arbitrary: td)
  case Nil
  show ?case by (simp add: perform_steps_Nil ebind_def)
next
  case (Cons ev evs)
  show ?case
    by (cases "perform ug ev td") (simp_all add: perform_steps_Cons ebind_def Cons.IH)
qed

lemma performs_tbind:
  assumes "performs ug td m" and "\<And>s. snd m = Inr s \<Longrightarrow> performs ug s (f s)"
  shows "performs ug td (tbind m f)"
proof (cases m)
  case (Pair tr r)
  show ?thesis
  proof (cases r)
    case (Inl e)
    from assms(1) Pair Inl have "perform_steps ug (steps_of tr) td = Inl e"
      by (simp add: performs_def)
    with Pair Inl show ?thesis by (simp add: performs_def tbind_def)
  next
    case (Inr s)
    obtain tr' r' where f: "f s = (tr', r')" by (cases "f s")
    from assms(2)[of s] Pair Inr f have "r' = perform_steps ug (steps_of tr') s"
      by (simp add: performs_def)
    moreover from assms(1) Pair Inr have "perform_steps ug (steps_of tr) td = Inr s"
      by (simp add: performs_def)
    ultimately show ?thesis using Pair Inr f
      by (simp add: performs_def tbind_def steps_of_def perform_steps_append ebind_def)
  qed
qed

lemma performs_enter: "is_step ev \<Longrightarrow> r = perform ug ev td \<Longrightarrow> performs ug td (enter ev r)"
  by (cases "perform ug ev td")
     (simp_all add: performs_def enter_def steps_of_def perform_steps_Cons perform_steps_Nil ebind_def)

lemma performs_skip: "performs ug td (skip td)"
  by (simp add: performs_def skip_def steps_of_def perform_steps_Nil)

lemma performs_checkNormalization: "performs ug td (checkNormalization td)"
  by (simp add: performs_def checkNormalization_def enter_def steps_of_def perform_steps_Cons
        perform_steps_Nil ebind_def Let_def split: option.split)

lemma performs_checkNonNegative: "performs ug td (checkNonNegative td)"
  by (simp add: performs_def checkNonNegative_def enter_def steps_of_def perform_steps_Cons
        perform_steps_Nil ebind_def Let_def split: option.split)

lemma performs_modifier_loop:
  "performs ug td (fold (\<lambda>i run. tbind run (\<lambda>td.
                     enter (Step_applyModifer i)
                       (applyTargetDistModiferToGrid (targetdist_modifer_pntrs td ! i) td)))
              is (skip td))"
proof (induction "is" rule: rev_induct)
  case Nil
  show ?case by (simp add: performs_skip)
next
  case (snoc i "is")
  show ?case
    by (simp, rule performs_tbind[OF snoc.IH], rule performs_enter) simp_all
qed

lemma performs_update: "performs updateGrid td (update updateGrid td)"
  unfolding update_def
  apply (rule performs_tbind)
   apply (rule performs_enter; simp)
  apply (rule performs_tbind)
   apply (rule performs_modifier_loop)
  apply (rule performs_tbind)
   apply (simp add: performs_skip performs_enter)
  apply (rule performs_tbind)
   apply (simp add: performs_skip performs_enter)
  apply (rule performs_tbind)
   apply (simp add: performs_skip performs_enter)
  apply (rule performs_tbind)
   apply (simp add: performs_skip performs_checkNormalization)
  apply (simp add: performs_skip performs_checkNonNegative)
  done

text \<open>
  Claim C1. What a run of \<^verbatim>\<open>update()\<close> returns, the distribution or the fatal error, is
  what the steps of its record give when they are performed one after the other on the
  distribution it started from. When \<^verbatim>\<open>updateGrid()\<close> fails, the run ends there.
  Otherwise the steps of the run are, in this order, the ones of the specification, read
  from the members as \<^verbatim>\<open>updateGrid()\<close> leaves them: all of them when the update
  succeeds, and then the distribution it returns is the one these steps give in this order;
  the beginning of the list when a later step fails. In particular, with the bias cutoff
  active neither the shift to zero nor the forced normalization is entered, and no
  modifier is applied after the cutoff transform.
\<close>

theorem update_fixed_order:
  "snd (update updateGrid td)
     = perform_steps updateGrid (steps_of (fst (update updateGrid td))) td
 \<and> (\<forall>e. updateGrid td = Inl e \<longrightarrow> update updateGrid td = ([Step_updateGrid], Inl e))
 \<and> (\<forall>td1. updateGrid td = Inr td1 \<longrightarrow>
        prefix (steps_of (fst (update updateGrid td))) (expected_steps td1)
      \<and> (\<forall>td'. snd (update updateGrid td) = Inr td' \<longrightarrow>
            steps_of (fst (update updateGrid td)) = expected_steps td1
          \<and> perform_steps updateGrid (expected_steps td1) td = Inr td')
      \<and> (bias_cutoff_active td1 \<longrightarrow>
            Step_shiftToZero \<notin> set (fst (update updateGrid td))
          \<and> Step_normalize \<notin> set (fst (update updateGrid td)))
      \<and> (\<forall>tr1 tr2 i. fst (update updateGrid td) = tr1 @ Step_biasCutoff # tr2 \<longrightarrow>
            Step_applyModifer i \<notin> set tr2))"
proof (intro conjI allI impI)
  show "snd (update updateGrid td)
     = perform_steps updateGrid (steps_of (fst (update updateGrid td))) td"
    using performs_update[of updateGrid td] by (simp add: performs_def)
next
  fix e assume "updateGrid td = Inl e"
  then show "update updateGrid td = ([Step_updateGrid], Inl e)"
    by (simp add: update_def tbind_def enter_def)
next
  fix td1 assume ug: "updateGrid td = Inr td1"
  obtain tr r where u: "update updateGrid td = (tr, r)" by (cases "update updateGrid td")
  from follows_update[of updateGrid td td1, OF ug] u
  have p: "prefix (steps_of tr) (expected_steps td1)"
    and q: "\<And>td'. r = Inr td' \<Longrightarrow> steps_of tr = expected_steps td1"
    by (cases r; simp add: follows_def)+
  from p u show "prefix (steps_of (fst (update updateGrid td))) (expected_steps td1)" by simp
  {
    fix td' assume s: "snd (update updateGrid td) = Inr td'"
    with q u show e: "steps_of (fst (update updateGrid td)) = expected_steps td1" by simp
    from performs_update[of updateGrid td] s e
    show "perform_steps updateGrid (expected_steps td1) td = Inr td'"
      by (simp add: performs_def)
  }
  {
    assume c: "bias_cutoff_active td1"
    from p have "set (steps_of tr) \<subseteq> set (expected_steps td1)" by (rule set_mono_prefix)
    moreover from c have "Step_shiftToZero \<notin> set (expected_steps td1)"
      "Step_normalize \<notin> set (expected_steps td1)"
      by (auto simp: expected_steps_def)
    ultimately have "Step_shiftToZero \<notin> set (steps_of tr)" "Step_normalize \<notin> set (steps_of tr)"
      by auto
    with u show "Step_shiftToZero \<notin> set (fst (update updateGrid td))"
      "Step_normalize \<notin> set (fst (update updateGrid td))"
      by (simp_all add: in_steps_of)
  }
  {
    fix tr1 tr2 i assume "fst (update updateGrid td) = tr1 @ Step_biasCutoff # tr2"
    with u have tr: "tr = tr1 @ Step_biasCutoff # tr2" by simp
    let ?pre = "[Step_updateGrid] @ map Step_applyModifer [0..<length (targetdist_modifer_pntrs td1)]"
    let ?rest = "(if bias_cutoff_active td1 then [Step_biasCutoff] else [])
     @ (if shift_targetdist_to_zero td1 \<and> \<not> bias_cutoff_active td1 then [Step_shiftToZero] else [])
     @ (if force_normalization td1 \<and> \<not> bias_cutoff_active td1 then [Step_normalize] else [])
     @ (if check_normalization td1 \<and> \<not> bias_cutoff_active td1 then [Step_checkNormalization] else [])
     @ (if check_nonnegative td1 then [Step_checkNonNegative] else [])"
    from p tr have "prefix (steps_of tr1 @ Step_biasCutoff # steps_of tr2) (?pre @ ?rest)"
      by (simp add: expected_steps_def)
    moreover have "Step_biasCutoff \<notin> set ?pre" by auto
    ultimately have "set (steps_of tr2) \<subseteq> set ?rest" by (rule after_marker)
    moreover have "Step_applyModifer i \<notin> set ?rest" by simp
    ultimately have "Step_applyModifer i \<notin> set (steps_of tr2)" by blast
    then show "Step_applyModifer i \<notin> set tr2" by (simp add: in_steps_of)
  }
qed

section \<open>Runs of the update on the sample\<close>

lemma sample_static_pass:
  "static_pass sample_getValue sample_grid sample_log_grid = Inr (sample_grid, sample_log_grid)"
  by (simp add: static_pass_def static_point_def sample_getValue_def ebind_def upt_2 getSize_def
        setValue_def setMinToZero_def shift_min_def scan_min_def dsub_def sample_grid_def sample_log_grid_def Let_def)

lemma sample_static:
  "calculateStaticDistributionGrid sample_getValue sample_td = Inr (sample_td\<lparr>static_grid_calculated := True\<rparr>)"
  by (simp add: calculateStaticDistributionGrid_def sample_td_sel sample_static_pass ebind_def Let_def)

lemma sample_integrate: "integrateGrid sample_grid = Fin 1"
  by (simp add: integrateGrid_def Let_def sample_grid_sel upt_2 getValue_def)

lemma sample_min: "getMinValue sample_grid = Fin 1"
  by (simp add: getMinValue_def scan_min_def sample_grid_sel)

lemma sample_checks:
  "targetdist_grid_pntr td = Some sample_grid \<Longrightarrow>
     checkNormalization td = ([Step_checkNormalization], Inr td)"
  "targetdist_grid_pntr td = Some sample_grid \<Longrightarrow>
     checkNonNegative td = ([Step_checkNonNegative], Inr td)"
  by (simp_all add: checkNormalization_def checkNonNegative_def Let_def sample_integrate sample_min dsub_def)

lemma sample_td_modified_sel:
  "vesbias_pntr sample_td_modified = Some sample_ves"
  "targetdist_grid_pntr sample_td_modified = Some sample_grid"
  "log_targetdist_grid_pntr sample_td_modified = Some sample_log_grid"
  "reweight_grid_active sample_td_modified = False"
  "bias_cutoff_active sample_td_modified = False"
  "shift_targetdist_to_zero sample_td_modified = False"
  "force_normalization sample_td_modified = True"
  "check_normalization sample_td_modified = False"
  "check_nonnegative sample_td_modified = True"
  "static_grid_calculated sample_td_modified = False"
  "targetdist_modifer_pntrs sample_td_modified = [WellTemperedModifer (Fin 2)]"
  by (simp_all add: sample_td_modified_def sample_td_sel)

lemma sample_td_cutoff_sel:
  "vesbias_pntr sample_td_cutoff = Some sample_ves"
  "bias_withoutcutoff_grid_pntr sample_td_cutoff = Some sample_bias_grid"
  "targetdist_grid_pntr sample_td_cutoff = Some sample_grid"
  "log_targetdist_grid_pntr sample_td_cutoff = Some sample_log_grid"
  "reweight_grid_active sample_td_cutoff = False"
  "bias_cutoff_active sample_td_cutoff = True"
  "shift_targetdist_to_zero sample_td_cutoff = False"
  "force_normalization sample_td_cutoff = False"
  "check_normalization sample_td_cutoff = False"
  "check_nonnegative sample_td_cutoff = True"
  "static_grid_calculated sample_td_cutoff = False"
  "targetdist_modifer_pntrs sample_td_cutoff = []"
  by (simp_all add: sample_td_cutoff_def sample_td_sel)

lemma sample_ves_sel:
  "ves_biasCutoffActive sample_ves" "ves_getBeta sample_ves = Fin 1"
  "getBiasCutoffSwitchingFunction sample_ves = sample_switching"
  by (simp_all add: sample_ves_def)

lemma sample_static_modified:
  "calculateStaticDistributionGrid sample_getValue sample_td_modified
     = Inr (sample_td_modified\<lparr>static_grid_calculated := True\<rparr>)"
  by (simp add: calculateStaticDistributionGrid_def sample_td_modified_sel sample_static_pass ebind_def Let_def)

lemma sample_static_cutoff:
  "calculateStaticDistributionGrid sample_getValue sample_td_cutoff
     = Inr (sample_td_cutoff\<lparr>static_grid_calculated := True\<rparr>)"
  by (simp add: calculateStaticDistributionGrid_def sample_td_cutoff_sel sample_static_pass ebind_def Let_def)

lemma sample_modifer_pass:
  "modifer_pass (WellTemperedModifer (Fin 2)) sample_grid sample_log_grid = (sample_grid, sample_log_grid)"
  by (simp add: modifer_pass_def modifer_point_def Let_def upt_2 getSize_def getValue_def getPoint_def
        getIntegrationWeights_def setValue_def scaleAllValuesAndDerivatives_def
        setMinToZero_def shift_min_def scan_min_def dsub_def sample_grid_def sample_log_grid_def)

lemma sample_normalizeGrid: "normalizeGrid sample_grid = (sample_grid, Fin 1)"
  by (simp add: normalizeGrid_def sample_integrate Let_def scaleAllValuesAndDerivatives_def)
     (simp add: sample_grid_def)

lemma cutoff_sample_grid:
  "cutoff_transform_spec sample_ves sample_bias_grid sample_grid
     = sample_grid\<lparr>grid_values := [Fin (4/3), Fin (1/3)]\<rparr>"
  by (simp add: cutoff_transform_spec_def Let_def sample_grid_sel upt_2 getValue_def
       sample_ves_def sample_switching_def)

lemma sample_update_modified:
  "update (calculateStaticDistributionGrid sample_getValue) sample_td_modified
   = ([Step_updateGrid, Step_applyModifer 0, Step_normalize, Step_checkNonNegative],
     Inr (sample_td_modified
          \<lparr>static_grid_calculated := True,
             log_targetdist_grid_pntr := Some sample_log_grid,
             targetdist_grid_pntr := Some sample_grid\<rparr>))"
  by (simp add: update_def sample_static_modified tbind_def enter_def skip_def sample_td_modified_sel sample_checks
        applyTargetDistModiferToGrid_def sample_modifer_pass normalizeTargetDistGrid_def sample_normalizeGrid)

lemma sample_update_cutoff:
  "update (calculateStaticDistributionGrid sample_getValue) sample_td_cutoff
   = ([Step_updateGrid, Step_biasCutoff, Step_checkNonNegative],
      Inr (sample_td_cutoff
            \<lparr>static_grid_calculated := True,
             targetdist_grid_pntr := Some (sample_grid\<lparr>grid_values := [Fin (4/3), Fin (1/3)]\<rparr>)\<rparr>))"
  by (simp add: update_def sample_static_cutoff tbind_def enter_def skip_def sample_td_cutoff_sel
        updateBiasCutoffForTargetDistGrid_def cutoff_pass_spec sample_ves_sel Let_def cutoff_sample_grid
        checkNonNegative_def getMinValue_def scan_min_def)

lemma sample_td_shifted_sel:
  "vesbias_pntr sample_td_shifted = Some sample_ves"
  "targetdist_grid_pntr sample_td_shifted = Some sample_grid"
  "log_targetdist_grid_pntr sample_td_shifted = Some sample_log_grid"
  "reweight_grid_active sample_td_shifted = False"
  "bias_cutoff_active sample_td_shifted = False"
  "shift_targetdist_to_zero sample_td_shifted = True"
  "force_normalization sample_td_shifted = False"
  "check_normalization sample_td_shifted = True"
  "check_nonnegative sample_td_shifted = False"
  "static_grid_calculated sample_td_shifted = False"
  "targetdist_modifer_pntrs sample_td_shifted = []"
  by (simp_all add: sample_td_shifted_def sample_td_sel)

lemma sample_static_pass_step:
  "static_pass sample_getValue_step sample_grid sample_log_grid
     = Inr (sample_grid\<lparr>grid_values := [Fin 1, Fin 3]\<rparr>,
            sample_log_grid\<lparr>grid_values := [Fin (ln 3), Fin 0]\<rparr>)"
  by (simp add: static_pass_def static_point_def sample_getValue_step_def ebind_def upt_2 getSize_def
        getPoint_def setValue_def setMinToZero_def shift_min_def scan_min_def dsub_def sample_grid_def
        sample_log_grid_def Let_def)

lemma sample_static_shifted:
  "calculateStaticDistributionGrid sample_getValue_step sample_td_shifted
     = Inr (sample_td_shifted
         \<lparr>targetdist_grid_pntr := Some (sample_grid\<lparr>grid_values := [Fin 1, Fin 3]\<rparr>),
          log_targetdist_grid_pntr := Some (sample_log_grid\<lparr>grid_values := [Fin (ln 3), Fin 0]\<rparr>),
          static_grid_calculated := True\<rparr>)"
  by (simp add: calculateStaticDistributionGrid_def sample_td_shifted_sel sample_static_pass_step ebind_def Let_def)

lemma sample_shift:
  "setMinimumOfTargetDistGridToZero (sample_td_shifted
         \<lparr>targetdist_grid_pntr := Some (sample_grid\<lparr>grid_values := [Fin 1, Fin 3]\<rparr>),
          log_targetdist_grid_pntr := Some (sample_log_grid\<lparr>grid_values := [Fin (ln 3), Fin 0]\<rparr>),
          static_grid_calculated := True\<rparr>)
   = Inr (sample_td_shifted
         \<lparr>targetdist_grid_pntr := Some (sample_grid\<lparr>grid_values := [Fin 0, Fin 2]\<rparr>),
          log_targetdist_grid_pntr := Some (sample_log_grid\<lparr>grid_values := [PInf, Fin 0]\<rparr>),
          static_grid_calculated := True\<rparr>)"
  apply (simp add: setMinimumOfTargetDistGridToZero_def normalizeTargetDistGrid_def normalizeGrid_def
        updateLogTargetDistGrid_def log_pass_def scaleAllValuesAndDerivatives_def ebind_def Let_def
        integrateGrid_def getMinValue_def scan_min_def getSize_def getValue_def getIntegrationWeights_def
        setMinToZero_def shift_min_def setValue_def sample_td_shifted_sel
        upt_2 dsub_def sample_grid_sel)
  apply (simp add: sample_grid_def sample_log_grid_def)
  done

lemma sample_update_shifted:
  "update (calculateStaticDistributionGrid sample_getValue_step) sample_td_shifted
   = ([Step_updateGrid, Step_shiftToZero, Step_checkNormalization],
      Inr (sample_td_shifted
         \<lparr>targetdist_grid_pntr := Some (sample_grid\<lparr>grid_values := [Fin 0, Fin 2]\<rparr>),
          log_targetdist_grid_pntr := Some (sample_log_grid\<lparr>grid_values := [PInf, Fin 0]\<rparr>),
          static_grid_calculated := True\<rparr>))"
  by (simp add: update_def sample_static_shifted tbind_def enter_def skip_def sample_td_shifted_sel
        sample_shift checkNormalization_def integrateGrid_def Let_def getValue_def getSize_def
        getIntegrationWeights_def upt_2 dsub_def)
     (simp add: sample_grid_def)

lemma sample_static_pass_zero:
  "static_pass sample_getValue_zero sample_grid sample_log_grid
     = Inr (sample_grid\<lparr>grid_values := [Fin 0, Fin 0]\<rparr>,
            sample_log_grid\<lparr>grid_values := [NaN, NaN]\<rparr>)"
  by (simp add: static_pass_def static_point_def sample_getValue_zero_def ebind_def upt_2 getSize_def
        getPoint_def setValue_def setMinToZero_def shift_min_def scan_min_def dsub_def sample_grid_def
        sample_log_grid_def Let_def)

text \<open>
  Three runs on the sample: with the shift to zero of a density that is not constant, which
  leaves the values \<open>[0, 2]\<close>; with one modifier and the forced normalization; and with
  the bias cutoff active, which leaves the values \<open>[4/3, 1/3]\<close> and where the shift to zero
  is not entered. Each returns what its steps give in their order.
\<close>

theorem update_fixed_order_witness:
  "steps_of (fst (update (calculateStaticDistributionGrid sample_getValue_step) sample_td_shifted))
     = [Step_updateGrid, Step_shiftToZero, Step_checkNormalization]
 \<and> perform_steps (calculateStaticDistributionGrid sample_getValue_step)
       [Step_updateGrid, Step_shiftToZero, Step_checkNormalization] sample_td_shifted
     = Inr (sample_td_shifted
         \<lparr>targetdist_grid_pntr := Some (sample_grid\<lparr>grid_values := [Fin 0, Fin 2]\<rparr>),
          log_targetdist_grid_pntr := Some (sample_log_grid\<lparr>grid_values := [PInf, Fin 0]\<rparr>),
          static_grid_calculated := True\<rparr>)
 \<and> steps_of (fst (update (calculateStaticDistributionGrid sample_getValue) sample_td_modified))
     = [Step_updateGrid, Step_applyModifer 0, Step_normalize, Step_checkNonNegative]
 \<and> steps_of (fst (update (calculateStaticDistributionGrid sample_getValue) sample_td_cutoff))
     = [Step_updateGrid, Step_biasCutoff, Step_checkNonNegative]
 \<and> perform_steps (calculateStaticDistributionGrid sample_getValue)
       [Step_updateGrid, Step_biasCutoff, Step_checkNonNegative] sample_td_cutoff
     = Inr (sample_td_cutoff
            \<lparr>static_grid_calculated := True,
             targetdist_grid_pntr := Some (sample_grid\<lparr>grid_values := [Fin (4/3), Fin (1/3)]\<rparr>)\<rparr>)
 \<and> Step_shiftToZero \<notin> set (fst (update (calculateStaticDistributionGrid sample_getValue) sample_td_cutoff))"
proof -
  let ?ug = "calculateStaticDistributionGrid sample_getValue"
  let ?ugs = "calculateStaticDistributionGrid sample_getValue_step"
  let ?m1 = "sample_td_modified\<lparr>static_grid_calculated := True\<rparr>"
  let ?c1 = "sample_td_cutoff\<lparr>static_grid_calculated := True\<rparr>"
  let ?s1 = "sample_td_shifted
         \<lparr>targetdist_grid_pntr := Some (sample_grid\<lparr>grid_values := [Fin 1, Fin 3]\<rparr>),
          log_targetdist_grid_pntr := Some (sample_log_grid\<lparr>grid_values := [Fin (ln 3), Fin 0]\<rparr>),
          static_grid_calculated := True\<rparr>"
  let ?s' = "sample_td_shifted
         \<lparr>targetdist_grid_pntr := Some (sample_grid\<lparr>grid_values := [Fin 0, Fin 2]\<rparr>),
          log_targetdist_grid_pntr := Some (sample_log_grid\<lparr>grid_values := [PInf, Fin 0]\<rparr>),
          static_grid_calculated := True\<rparr>"
  let ?c' = "sample_td_cutoff
            \<lparr>static_grid_calculated := True,
             targetdist_grid_pntr := Some (sample_grid\<lparr>grid_values := [Fin (4/3), Fin (1/3)]\<rparr>)\<rparr>"
  have em: "expected_steps ?m1 = [Step_updateGrid, Step_applyModifer 0, Step_normalize, Step_checkNonNegative]"
    and ec: "expected_steps ?c1 = [Step_updateGrid, Step_biasCutoff, Step_checkNonNegative]"
    and es: "expected_steps ?s1 = [Step_updateGrid, Step_shiftToZero, Step_checkNormalization]"
    by (simp_all add: expected_steps_def sample_td_modified_sel sample_td_cutoff_sel sample_td_shifted_sel)
  have sm: "\<exists>td'. snd (update ?ug sample_td_modified) = Inr td'"
    and sc: "snd (update ?ug sample_td_cutoff) = Inr ?c'"
    and ss: "snd (update ?ugs sample_td_shifted) = Inr ?s'"
    by (simp_all add: sample_update_modified sample_update_cutoff sample_update_shifted)
  have cc: "bias_cutoff_active ?c1" by (simp add: sample_td_cutoff_sel)
  from update_fixed_order[of ?ug sample_td_modified] sample_static_modified sm em
  have 1: "steps_of (fst (update ?ug sample_td_modified))
     = [Step_updateGrid, Step_applyModifer 0, Step_normalize, Step_checkNonNegative]"
    by metis
  from update_fixed_order[of ?ug sample_td_cutoff] sample_static_cutoff sc ec cc
  have 2: "steps_of (fst (update ?ug sample_td_cutoff)) = [Step_updateGrid, Step_biasCutoff, Step_checkNonNegative]"
    and 3: "Step_shiftToZero \<notin> set (fst (update ?ug sample_td_cutoff))"
    and 4: "perform_steps ?ug [Step_updateGrid, Step_biasCutoff, Step_checkNonNegative] sample_td_cutoff = Inr ?c'"
    by metis+
  from update_fixed_order[of ?ugs sample_td_shifted] sample_static_shifted ss es
  have 5: "steps_of (fst (update ?ugs sample_td_shifted))
             = [Step_updateGrid, Step_shiftToZero, Step_checkNormalization]"
    and 6: "perform_steps ?ugs [Step_updateGrid, Step_shiftToZero, Step_checkNormalization] sample_td_shifted
             = Inr ?s'"
    by metis+
  from 1 2 3 4 5 6 show ?thesis by blast
qed

section \<open>Repeated updates and the two checks\<close>

lemma tbind_Inr_iff:
  "tbind m f = (tr, Inr y) \<longleftrightarrow> (\<exists>tr1 x tr2. m = (tr1, Inr x) \<and> f x = (tr2, Inr y) \<and> tr = tr1 @ tr2)"
  by (cases m; cases "snd m") (auto simp: tbind_def split: prod.splits)

lemma checkNormalization_Inr:
  "checkNormalization td = (tr, Inr td') \<Longrightarrow> td' = td"
  by (auto simp: checkNormalization_def enter_def Let_def split: option.splits)

lemma checkNonNegative_Inr:
  "checkNonNegative td = (tr, Inr td') \<Longrightarrow> td' = td"
  by (auto simp: checkNonNegative_def enter_def Let_def split: option.splits)

lemma static_grid_calculated_after:
  "calculateStaticDistributionGrid gv td = Inr td' \<Longrightarrow> static_grid_calculated td'"
proof -
  have "\<forall>td'. calculateStaticDistributionGrid gv td = Inr td' \<longrightarrow> static_grid_calculated td'"
    by (simp add: calculateStaticDistributionGrid_def Let_def ebind_def
             split: option.split prod.split sum.split)
  then show "calculateStaticDistributionGrid gv td = Inr td' \<Longrightarrow> static_grid_calculated td'"
    by blast
qed

text \<open>
  Claim C9. For a distribution that uses the static grid computation of the base class,
  with the bias cutoff inactive, no modifier, and neither the shift to zero nor the forced
  normalization: after an update that succeeded, the grid computation returns at once with
  the distribution as it is, and a second update ends in the same distribution, so the
  value grid and the log grid are unchanged (and it writes the same warnings).
\<close>

theorem static_update_repeated:
  assumes first: "update (calculateStaticDistributionGrid td_getValue) td = (tr, Inr td1)"
    and plain: "\<not> bias_cutoff_active td" "targetdist_modifer_pntrs td = []"
      "\<not> shift_targetdist_to_zero td" "\<not> force_normalization td"
  shows "calculateStaticDistributionGrid td_getValue td1 = Inr td1
       \<and> update (calculateStaticDistributionGrid td_getValue) td1 = (tr, Inr td1)"
proof -
  let ?ug = "calculateStaticDistributionGrid td_getValue"
  let ?checks = "\<lambda>s. tbind (if check_normalization s \<and> \<not> bias_cutoff_active s
                             then checkNormalization s else skip s)
                   (\<lambda>td. if check_nonnegative td then checkNonNegative td else skip td)"
  have U: "update ?ug t = tbind (enter Step_updateGrid (Inr s)) ?checks"
    if "?ug t = Inr s" and "flags_of s = flags_of td" for t s
    using that(1) flags_of_sel[OF that(2)] plain
    by (simp add: update_def tbind_def enter_def skip_def)
  from first obtain s1 where ug: "?ug td = Inr s1"
    by (cases "?ug td") (auto simp: update_def tbind_def enter_def)
  have f1: "flags_of s1 = flags_of td" using ug by (rule flags_calculateStaticDistributionGrid)
  from first U[OF ug f1] obtain tr' where c: "?checks s1 = (tr', Inr td1)" and tr: "tr = Step_updateGrid # tr'"
    by (auto simp: tbind_Inr_iff enter_def)
  from c have eq: "td1 = s1"
    by (auto simp: tbind_Inr_iff skip_def split: if_splits
             dest!: checkNormalization_Inr checkNonNegative_Inr)
  from static_grid_calculated_after[OF ug] flags_of_sel[OF f1] plain
  have again: "?ug s1 = Inr s1"
    by (simp add: calculateStaticDistributionGrid_def)
  from U[OF again f1] c tr eq again show ?thesis
    by (simp add: tbind_def enter_def)
qed

text \<open>The second update of the sample after its first one.\<close>

theorem static_update_repeated_witness:
  "update (calculateStaticDistributionGrid sample_getValue) (sample_td\<lparr>static_grid_calculated := True\<rparr>)
   = ([Step_updateGrid, Step_checkNormalization, Step_checkNonNegative],
      Inr (sample_td\<lparr>static_grid_calculated := True\<rparr>))"
proof -
  have "update (calculateStaticDistributionGrid sample_getValue) sample_td
        = ([Step_updateGrid, Step_checkNormalization, Step_checkNonNegative],
           Inr (sample_td\<lparr>static_grid_calculated := True\<rparr>))"
    by (simp add: update_def sample_static tbind_def enter_def skip_def sample_td_sel sample_checks)
  from static_update_repeated[OF this] show ?thesis
    by (simp add: sample_td_sel)
qed


lemma warnings_of_simps [simp]:
  "warnings_of [] = []"
  "warnings_of (tr @ tr') = warnings_of tr @ warnings_of tr'"
  "warnings_of (ev # tr) = (if is_step ev then warnings_of tr else ev # warnings_of tr)"
  by (simp_all add: warnings_of_def)

lemma quiet_stage:
  "(if c then enter ev r else skip s) = (t, x) \<Longrightarrow> is_step ev \<Longrightarrow> warnings_of t = []"
  by (auto simp: enter_def skip_def split: if_splits)

lemma quiet_modifier_loop:
  "fold (\<lambda>i run. tbind run (\<lambda>td.
            enter (Step_applyModifer i)
              (applyTargetDistModiferToGrid (targetdist_modifer_pntrs td ! i) td)))
     [0..<k] (skip s) = (t, x) \<Longrightarrow> warnings_of t = []"
proof (induction k arbitrary: t x)
  case 0 then show ?case by (simp add: skip_def)
next
  case (Suc k)
  obtain t0 x0 where p: "fold (\<lambda>i run. tbind run (\<lambda>td.
            enter (Step_applyModifer i)
              (applyTargetDistModiferToGrid (targetdist_modifer_pntrs td ! i) td)))
     [0..<k] (skip s) = (t0, x0)" by fastforce
  from Suc.IH[OF p] have q: "warnings_of t0 = []" .
  from Suc.prems p q show ?case
    by (cases x0) (auto simp: tbind_def enter_def split: prod.splits)
qed

lemma checkNormalization_warnings:
  "targetdist_grid_pntr td = Some grid \<Longrightarrow>
   checkNormalization td
   = (Step_checkNormalization #
        (if dlt (integrateGrid grid) (Fin 0.9) \<or> dlt (Fin 1.1) (integrateGrid grid)
         then [Warning_notNormalized (integrateGrid grid)] else []), Inr td)"
  by (simp add: checkNormalization_def Let_def dsub_def)

lemma checkNonNegative_warnings:
  "targetdist_grid_pntr td = Some grid \<Longrightarrow>
   checkNonNegative td
   = (Step_checkNonNegative #
        (if dlt (getMinValue grid) (Fin (- 0.02))
         then [Warning_negativeValues (getMinValue grid)] else []), Inr td)"
  by (simp add: checkNonNegative_def Let_def)

lemma update_warnings:
  assumes "update updateGrid td = (tr, Inr td')" and "targetdist_grid_pntr td' = Some grid"
  shows "warnings_of tr
         = (if check_normalization td' \<and> \<not> bias_cutoff_active td'
               \<and> (dlt (integrateGrid grid) (Fin 0.9) \<or> dlt (Fin 1.1) (integrateGrid grid))
            then [Warning_notNormalized (integrateGrid grid)] else [])
         @ (if check_nonnegative td' \<and> dlt (getMinValue grid) (Fin (- 0.02))
            then [Warning_negativeValues (getMinValue grid)] else [])"
proof -
  from assms(1) obtain t1 s1 t2 s2 t3 s3 t4 s4 t5 s5 t6 s6 t7 where
    A: "enter Step_updateGrid (updateGrid td) = (t1, Inr s1)"
    and B: "fold (\<lambda>i run. tbind run (\<lambda>td.
                     enter (Step_applyModifer i)
                       (applyTargetDistModiferToGrid (targetdist_modifer_pntrs td ! i) td)))
              [0..<length (targetdist_modifer_pntrs s1)] (skip s1) = (t2, Inr s2)"
    and C: "(if bias_cutoff_active s2
            then enter Step_biasCutoff (updateBiasCutoffForTargetDistGrid s2)
            else skip s2) = (t3, Inr s3)"
    and D: "(if shift_targetdist_to_zero s3 \<and> \<not> bias_cutoff_active s3
            then enter Step_shiftToZero (setMinimumOfTargetDistGridToZero s3)
            else skip s3) = (t4, Inr s4)"
    and E: "(if force_normalization s4 \<and> \<not> bias_cutoff_active s4
            then enter Step_normalize (normalizeTargetDistGrid s4)
            else skip s4) = (t5, Inr s5)"
    and F: "(if check_normalization s5 \<and> \<not> bias_cutoff_active s5
            then checkNormalization s5
            else skip s5) = (t6, Inr s6)"
    and G: "(if check_nonnegative s6 then checkNonNegative s6 else skip s6) = (t7, Inr td')"
    and tr: "tr = t1 @ t2 @ t3 @ t4 @ t5 @ t6 @ t7"
    unfolding update_def tbind_Inr_iff by auto
  have q: "warnings_of t1 = []" "warnings_of t2 = []" "warnings_of t3 = []"
    "warnings_of t4 = []" "warnings_of t5 = []"
    using A quiet_modifier_loop[OF B] quiet_stage[OF C] quiet_stage[OF D] quiet_stage[OF E]
    by (auto simp add: enter_def)
  from G have e7: "td' = s6"
    by (auto simp: skip_def split: if_splits dest: checkNonNegative_Inr)
  from F have e6: "s6 = s5"
    by (auto simp: skip_def split: if_splits dest: checkNormalization_Inr)
  from e6 e7 assms(2) have g: "targetdist_grid_pntr s5 = Some grid" "targetdist_grid_pntr s6 = Some grid"
    by simp_all
  from F g(1) have w6: "warnings_of t6
         = (if check_normalization s5 \<and> \<not> bias_cutoff_active s5
               \<and> (dlt (integrateGrid grid) (Fin 0.9) \<or> dlt (Fin 1.1) (integrateGrid grid))
            then [Warning_notNormalized (integrateGrid grid)] else [])"
    by (auto simp: skip_def checkNormalization_warnings split: if_splits)
  from G g(2) have w7: "warnings_of t7
         = (if check_nonnegative s6 \<and> dlt (getMinValue grid) (Fin (- 0.02))
            then [Warning_negativeValues (getMinValue grid)] else [])"
    by (auto simp: skip_def checkNonNegative_warnings split: if_splits)
  from tr q w6 w7 e6 e7 show ?thesis by simp
qed

text \<open>
  Claim C8. Neither check ends the run: on a distribution whose grid is set up each
  returns the distribution as it is. After a successful update with the bias cutoff
  inactive the warnings written are exactly: the warning of the normalization when its
  check is enabled and the integral of the value grid is below 0.9 or above 1.1 (for a
  finite integral: further than 0.1 from 1), then the warning of the negative values when
  its check is enabled and the minimum of the grid is below -0.02.
\<close>

theorem checks_warn_and_continue:
  "(\<forall>grid. targetdist_grid_pntr td = Some grid \<longrightarrow>
       snd (checkNormalization td) = Inr td \<and> snd (checkNonNegative td) = Inr td)
 \<and> (\<forall>tr td' grid. update updateGrid td = (tr, Inr td') \<and> targetdist_grid_pntr td' = Some grid
       \<and> \<not> bias_cutoff_active td' \<longrightarrow>
       warnings_of tr
         = (if check_normalization td'
               \<and> (dlt (integrateGrid grid) (Fin 0.9) \<or> dlt (Fin 1.1) (integrateGrid grid))
            then [Warning_notNormalized (integrateGrid grid)] else [])
         @ (if check_nonnegative td' \<and> dlt (getMinValue grid) (Fin (- 0.02))
            then [Warning_negativeValues (getMinValue grid)] else [])
     \<and> (\<forall>x. integrateGrid grid = Fin x \<longrightarrow>
          (Warning_notNormalized (Fin x) \<in> set tr \<longleftrightarrow> check_normalization td' \<and> 0.1 < \<bar>x - 1\<bar>))
     \<and> (\<forall>y. getMinValue grid = Fin y \<longrightarrow>
          (Warning_negativeValues (Fin y) \<in> set tr \<longleftrightarrow> check_nonnegative td' \<and> y < - 0.02)))"
proof (intro conjI allI impI)
  fix grid assume "targetdist_grid_pntr td = Some grid"
  then show "snd (checkNormalization td) = Inr td" "snd (checkNonNegative td) = Inr td"
    by (simp_all add: checkNormalization_warnings checkNonNegative_warnings)
next
  fix tr td' grid
  assume a: "update updateGrid td = (tr, Inr td') \<and> targetdist_grid_pntr td' = Some grid
       \<and> \<not> bias_cutoff_active td'"
  then have w: "warnings_of tr
         = (if check_normalization td'
               \<and> (dlt (integrateGrid grid) (Fin 0.9) \<or> dlt (Fin 1.1) (integrateGrid grid))
            then [Warning_notNormalized (integrateGrid grid)] else [])
         @ (if check_nonnegative td' \<and> dlt (getMinValue grid) (Fin (- 0.02))
            then [Warning_negativeValues (getMinValue grid)] else [])"
    using update_warnings[of updateGrid td tr td' grid] by simp
  then show "warnings_of tr
         = (if check_normalization td'
               \<and> (dlt (integrateGrid grid) (Fin 0.9) \<or> dlt (Fin 1.1) (integrateGrid grid))
            then [Warning_notNormalized (integrateGrid grid)] else [])
         @ (if check_nonnegative td' \<and> dlt (getMinValue grid) (Fin (- 0.02))
            then [Warning_negativeValues (getMinValue grid)] else [])" .
  have m: "ev \<in> set tr \<longleftrightarrow> ev \<in> set (warnings_of tr)" if "\<not> is_step ev" for ev
    using that by (simp add: warnings_of_def)
  {
    fix x assume "integrateGrid grid = Fin x"
    moreover have "(x < 0.9 \<or> 1.1 < x) \<longleftrightarrow> 0.1 < \<bar>x - 1\<bar>" by (auto simp: abs_if)
    ultimately show "Warning_notNormalized (Fin x) \<in> set tr \<longleftrightarrow> check_normalization td' \<and> 0.1 < \<bar>x - 1\<bar>"
      using w by (auto simp: m simp del: abs_if split: if_splits)
  }
  {
    fix y assume "getMinValue grid = Fin y"
    with w show "Warning_negativeValues (Fin y) \<in> set tr \<longleftrightarrow> check_nonnegative td' \<and> y < - 0.02"
      by (auto simp: m)
  }
qed


lemma sample_static_pass_negative:
  "static_pass sample_getValue_negative sample_grid sample_log_grid
     = Inr (sample_grid\<lparr>grid_values := [Fin (- 1), Fin (- 1)]\<rparr>,
            sample_log_grid\<lparr>grid_values := [NaN, NaN]\<rparr>)"
  by (simp add: static_pass_def static_point_def sample_getValue_negative_def ebind_def upt_2 getSize_def
        setValue_def setMinToZero_def shift_min_def scan_min_def dsub_def sample_grid_def sample_log_grid_def Let_def)

lemma sample_update_negative:
  "update (calculateStaticDistributionGrid sample_getValue_negative) sample_td
   = ([Step_updateGrid, Step_checkNormalization, Warning_notNormalized (Fin (- 1)),
       Step_checkNonNegative, Warning_negativeValues (Fin (- 1))],
      Inr (sample_td\<lparr>targetdist_grid_pntr := Some (sample_grid\<lparr>grid_values := [Fin (- 1), Fin (- 1)]\<rparr>),
                     log_targetdist_grid_pntr := Some (sample_log_grid\<lparr>grid_values := [NaN, NaN]\<rparr>),
                     static_grid_calculated := True\<rparr>))"
  by (simp add: update_def calculateStaticDistributionGrid_def sample_td_sel sample_static_pass_negative
        ebind_def Let_def tbind_def enter_def skip_def checkNormalization_def checkNonNegative_def
        integrateGrid_def getMinValue_def scan_min_def getSize_def getValue_def getIntegrationWeights_def
        upt_2 dsub_def)
     (simp add: sample_grid_def)

text \<open>
  The static variant with the constant density \<open>-1\<close> on the sample: both warnings are
  written and the update succeeds.
\<close>

theorem checks_warn_and_continue_witness:
  "warnings_of (fst (update (calculateStaticDistributionGrid sample_getValue_negative) sample_td))
     = [Warning_notNormalized (Fin (- 1)), Warning_negativeValues (Fin (- 1))]
 \<and> \<not> isl (snd (update (calculateStaticDistributionGrid sample_getValue_negative) sample_td))"
proof -
  let ?g = "sample_grid\<lparr>grid_values := [Fin (- 1), Fin (- 1)]\<rparr>"
  let ?td' = "sample_td\<lparr>targetdist_grid_pntr := Some ?g,
                     log_targetdist_grid_pntr := Some (sample_log_grid\<lparr>grid_values := [NaN, NaN]\<rparr>),
                     static_grid_calculated := True\<rparr>"
  have i: "integrateGrid ?g = Fin (- 1)" and m: "getMinValue ?g = Fin (- 1)"
    by (simp_all add: integrateGrid_def getMinValue_def scan_min_def getSize_def getValue_def
          getIntegrationWeights_def upt_2 Let_def sample_grid_def)
  have f: "check_normalization ?td'" "check_nonnegative ?td'" "\<not> bias_cutoff_active ?td'"
    "targetdist_grid_pntr ?td' = Some ?g"
    by (simp_all add: sample_td_sel)
  from checks_warn_and_continue[of sample_td "calculateStaticDistributionGrid sample_getValue_negative"]
    sample_update_negative f
  have "warnings_of [Step_updateGrid, Step_checkNormalization, Warning_notNormalized (Fin (- 1)),
       Step_checkNonNegative, Warning_negativeValues (Fin (- 1))]
         = (if check_normalization ?td'
               \<and> (dlt (integrateGrid ?g) (Fin 0.9) \<or> dlt (Fin 1.1) (integrateGrid ?g))
            then [Warning_notNormalized (integrateGrid ?g)] else [])
         @ (if check_nonnegative ?td' \<and> dlt (getMinValue ?g) (Fin (- 0.02))
            then [Warning_negativeValues (getMinValue ?g)] else [])"
    by blast
  with i m f sample_update_negative show ?thesis by simp
qed

section \<open>The log grid after an update\<close>

lemma map_upt_nth: "map (\<lambda>l. h (xs ! l)) [0..<length xs] = map h xs"
  by (intro nth_equalityI) simp_all







lemma length_shift_min [simp]: "length (shift_min xs) = length xs"
  by (cases xs) (simp_all add: shift_min_def Let_def)

lemma fold_setValue:
  "k \<le> length (grid_values lg) \<Longrightarrow>
   fold (\<lambda>l lg. setValue lg l (F l)) [0..<k] lg
   = lg\<lparr>grid_values := map F [0..<k] @ drop k (grid_values lg)\<rparr>"
proof (induction k)
  case 0 show ?case by simp
next
  case (Suc k)
  then have k: "k < length (grid_values lg)" by simp
  have "(map F [0..<k] @ drop k (grid_values lg))[k := F k]
        = map F [0..<k] @ F k # drop (Suc k) (grid_values lg)"
    using upd_at_drop[OF k, of "map F [0..<k]" "F k"] by simp
  with Suc show ?case by (simp add: setValue_def)
qed

lemma log_pass_values:
  assumes "getSize lg = getSize g"
  shows "grid_values (log_pass g lg) = shift_min (map (\<lambda>v. dneg (dlog v)) (grid_values g))"
proof -
  have "fold (\<lambda>l lg. setValue lg l (dneg (dlog (getValue g l)))) [0..<getSize g] lg
        = lg\<lparr>grid_values := map (\<lambda>l. dneg (dlog (getValue g l))) [0..<getSize g]
                                @ drop (getSize g) (grid_values lg)\<rparr>"
    using assms by (intro fold_setValue) (simp add: getSize_def)
  moreover have "map (\<lambda>l. dneg (dlog (getValue g l))) [0..<getSize g]
                 = map (\<lambda>v. dneg (dlog v)) (grid_values g)"
    unfolding getValue_def getSize_def by (rule map_upt_nth)
  ultimately show ?thesis
    using assms by (simp add: log_pass_def setMinToZero_def getSize_def)
qed







lemma normalizeGrid_weights [simp]: "grid_weights (fst (normalizeGrid g)) = grid_weights g"
  by (simp add: normalizeGrid_def Let_def scaleAllValuesAndDerivatives_def)


lemma normalizeGrid_values:
  "grid_values (fst (normalizeGrid g))
     = map (\<lambda>v. dmul v (ddiv (Fin 1) (integrateGrid g))) (grid_values g)"
  by (simp add: normalizeGrid_def Let_def scaleAllValuesAndDerivatives_def)

lemma getSize_normalizeGrid [simp]: "getSize (fst (normalizeGrid g)) = getSize g"
  by (simp add: getSize_def normalizeGrid_values)

lemma getSize_setMinToZero [simp]: "getSize (setMinToZero g) = getSize g"
  by (simp add: getSize_def setMinToZero_def)

lemma getSize_log_pass [simp]: "getSize lg = getSize g \<Longrightarrow> getSize (log_pass g lg) = getSize g"
  using log_pass_values[of lg g] by (simp add: getSize_def)


























section \<open>Normalization at a zero integral\<close>

lemma sample_td_normalize_sel:
  "vesbias_pntr sample_td_normalize = Some sample_ves"
  "targetdist_grid_pntr sample_td_normalize = Some sample_grid"
  "log_targetdist_grid_pntr sample_td_normalize = Some sample_log_grid"
  "reweight_grid_active sample_td_normalize = False"
  "bias_cutoff_active sample_td_normalize = False"
  "shift_targetdist_to_zero sample_td_normalize = False"
  "force_normalization sample_td_normalize = True"
  "check_normalization sample_td_normalize = False"
  "check_nonnegative sample_td_normalize = True"
  "static_grid_calculated sample_td_normalize = False"
  "targetdist_modifer_pntrs sample_td_normalize = []"
  by (simp_all add: sample_td_normalize_def setForcedNormalization_def sample_td_sel)

lemma sample_static_zero:
  "calculateStaticDistributionGrid sample_getValue_zero sample_td_normalize
     = Inr (sample_td_normalize
         \<lparr>targetdist_grid_pntr := Some (sample_grid\<lparr>grid_values := [Fin 0, Fin 0]\<rparr>),
          log_targetdist_grid_pntr := Some (sample_log_grid\<lparr>grid_values := [NaN, NaN]\<rparr>),
          static_grid_calculated := True\<rparr>)"
  by (simp add: calculateStaticDistributionGrid_def sample_td_normalize_sel sample_static_pass_zero ebind_def Let_def)

lemma sample_integrate_zero: "integrateGrid (sample_grid\<lparr>grid_values := [Fin 0, Fin 0]\<rparr>) = Fin 0"
  by (simp add: integrateGrid_def Let_def getSize_def getIntegrationWeights_def upt_2 getValue_def)
     (simp add: sample_grid_def)

lemma sample_normalize_zero:
  "normalizeTargetDistGrid (sample_td_normalize
         \<lparr>targetdist_grid_pntr := Some (sample_grid\<lparr>grid_values := [Fin 0, Fin 0]\<rparr>),
          log_targetdist_grid_pntr := Some (sample_log_grid\<lparr>grid_values := [NaN, NaN]\<rparr>),
          static_grid_calculated := True\<rparr>)
   = Inr (sample_td_normalize
         \<lparr>targetdist_grid_pntr := Some (sample_grid\<lparr>grid_values := [NaN, NaN]\<rparr>),
          log_targetdist_grid_pntr := Some (sample_log_grid\<lparr>grid_values := [NaN, NaN]\<rparr>),
          static_grid_calculated := True\<rparr>)"
  by (simp add: normalizeTargetDistGrid_def normalizeGrid_def sample_integrate_zero Let_def
       scaleAllValuesAndDerivatives_def sample_td_normalize_sel inf_times_def sample_grid_sel)

lemma sample_matheval_update_zero:
  "TD_Matheval_updateGrid sample_matheval_zero sample_td_normalize = Inl CannotBeNormalized"
proof -
  have "matheval_var_values sample_matheval_zero sample_td_normalize (fes_grid_pntr sample_td_normalize)
          = Inr [Fin 0]"
    by (simp add: matheval_var_values_def sample_matheval_zero_def ebind_def)
  moreover have "matheval_pass sample_matheval_zero False (fes_grid_pntr sample_td_normalize) [Fin 0]
                   sample_grid sample_log_grid = Inl CannotBeNormalized"
    by (simp add: matheval_pass_def matheval_point_def sample_matheval_zero_def ebind_def upt_2 getSize_def
        getPoint_def setValue_def setMinToZero_def shift_min_def scan_min_def dsub_def sample_grid_def
        getIntegrationWeights_def sample_log_grid_def Let_def)
  ultimately show ?thesis
    by (simp add: TD_Matheval_updateGrid_def sample_td_normalize_sel ebind_def)
qed

text \<open>
  Claim C5 at a zero integral. The density that is zero everywhere integrates to zero over
  the sample grid, and the distribution is not shifted to zero. The update with the forced
  normalization returns: \<^verbatim>\<open>normalizeTargetDistGrid\<close> scales by \<open>1/0\<close> and tests only
  \<^verbatim>\<open>normalization<0.0\<close>, which leaves a grid of values that are not numbers. The
  update of \<^verbatim>\<open>TD_Matheval\<close> on the same density and distribution ends the run.
\<close>

theorem normalization_zero_integral:
  "integrateGrid (sample_grid\<lparr>grid_values := [Fin 0, Fin 0]\<rparr>) = Fin 0
 \<and> \<not> shift_targetdist_to_zero sample_td_normalize
 \<and> update (calculateStaticDistributionGrid sample_getValue_zero) sample_td_normalize
     = ([Step_updateGrid, Step_normalize, Step_checkNonNegative],
        Inr (sample_td_normalize
         \<lparr>targetdist_grid_pntr := Some (sample_grid\<lparr>grid_values := [NaN, NaN]\<rparr>),
          log_targetdist_grid_pntr := Some (sample_log_grid\<lparr>grid_values := [NaN, NaN]\<rparr>),
          static_grid_calculated := True\<rparr>))
 \<and> TD_Matheval_updateGrid sample_matheval_zero sample_td_normalize = Inl CannotBeNormalized"
proof -
  have "update (calculateStaticDistributionGrid sample_getValue_zero) sample_td_normalize
     = ([Step_updateGrid, Step_normalize, Step_checkNonNegative],
        Inr (sample_td_normalize
         \<lparr>targetdist_grid_pntr := Some (sample_grid\<lparr>grid_values := [NaN, NaN]\<rparr>),
          log_targetdist_grid_pntr := Some (sample_log_grid\<lparr>grid_values := [NaN, NaN]\<rparr>),
          static_grid_calculated := True\<rparr>))"
    by (simp add: update_def sample_static_zero tbind_def enter_def skip_def sample_td_normalize_sel
          sample_normalize_zero checkNonNegative_def getMinValue_def scan_min_def Let_def)
  then show ?thesis
    by (simp add: sample_integrate_zero sample_td_normalize_sel sample_matheval_update_zero)
qed

end
